theory Spec2Isabelle
  imports Main
begin

section \<open>Values shared with the collaborators\<close>

text \<open>
  The facade of \<^verbatim>\<open>src/compiler/tools/LanguageService.ts\<close> sits between a mutable cache of
  source files and the TypeScript language service. Paths and texts are JavaScript strings,
  positions are JavaScript numbers used as integers.
\<close>

type_synonym path = string

text \<open>
  A JavaScript value as far as settings objects need it. An object is a finite map from
  property names to values; a property can be absent or present with the value
  \<^verbatim>\<open>undefined\<close>.
\<close>

datatype jsval = JUndefined | JBool bool | JNum int | JStr string

type_synonym jsobject = "string \<rightharpoonup> jsval"

text \<open>The failures the facade can end with. \<open>EngineError\<close> is an exception raised inside the
  language service and passed through; \<open>TypeError\<close> is what calling a method on
  \<^verbatim>\<open>undefined\<close> raises.\<close>

datatype error =
    FileNotFoundError path
  | ArgumentNullOrWhitespaceError string
  | TypeError
  | EngineError string

subsection \<open>Number.prototype.toString on a counter\<close>

definition digitChar :: "nat \<Rightarrow> char" where
  "digitChar d = ''0123456789'' ! d"

fun toString :: "nat \<Rightarrow> string" where
  "toString n =
     (if n < 10 then [digitChar n] else toString (n div 10) @ [digitChar (n mod 10)])"

declare toString.simps [simp del]

definition digitVal :: "char \<Rightarrow> nat" where
  "digitVal c = of_char c - 48"

definition parseNat :: "string \<Rightarrow> nat" where
  "parseNat s = foldl (\<lambda>acc c. 10 * acc + digitVal c) 0 s"

section \<open>Handles and nodes\<close>

record SourceFile =
  getFilePath :: path
  getFullText :: string

text \<open>A node as the facade reads it: \<^verbatim>\<open>node.sourceFile\<close> or \<^verbatim>\<open>node.getSourceFile()\<close>, \<^verbatim>\<open>node.getStart()\<close>,
  \<^verbatim>\<open>node.getText()\<close>.\<close>

record Node =
  getSourceFile :: SourceFile
  getStart :: int
  getText :: string

text \<open>A reference entry and a referenced symbol as the facade reads them:
  \<^verbatim>\<open>reference.isDefinition()\<close>, \<^verbatim>\<open>reference.getNode()\<close>,
  \<^verbatim>\<open>referenceSymbol.getDefinition().getKind()\<close>, \<^verbatim>\<open>referenceSymbol.getReferences()\<close>.\<close>

record ReferenceEntry =
  isDefinition :: bool
  getNode :: Node

record ReferencedSymbol =
  getDefinitionKind :: string
  getReferences :: "ReferenceEntry list"

text \<open>\<^verbatim>\<open>ts.ScriptElementKind.alias\<close>\<close>

definition ScriptElementKind_alias :: string where
  "ScriptElementKind_alias = ''alias''"

section \<open>Engine-native records and their handles\<close>

text \<open>The records of the TypeScript language service that the facade receives, with the
  fields it or its handles read.\<close>

record ts_DocumentSpan =
  spanFileName :: path
  textSpanStart :: int
  textSpanLength :: int

record ts_ReferencedSymbol =
  nativeDefinitionKind :: string
  nativeReferences :: "(ts_DocumentSpan \<times> bool) list"

record ts_TextChange =
  spanStart :: int
  spanLength :: int
  changeNewText :: string

record ts_FileTextChanges =
  changesFileName :: path
  textChanges :: "ts_TextChange list"

record ts_EmitOutput =
  outputFiles :: "(path \<times> string) list"
  emitSkipped :: bool

text \<open>The handle classes of \<^verbatim>\<open>./results\<close> wrap one native record each.\<close>

datatype DefinitionInfo = DefinitionInfo ts_DocumentSpan
datatype ImplementationLocation = ImplementationLocation ts_DocumentSpan
datatype RenameLocation = RenameLocation ts_DocumentSpan
datatype TextChange = TextChange ts_TextChange
datatype FileTextChanges = FileTextChanges ts_FileTextChanges

section \<open>The global container\<close>

text \<open>The callbacks that can be subscribed to the file-added and file-removed events of the
  compiler factory. The facade subscribes one: \<^verbatim>\<open>() => this.resetProgram()\<close>.\<close>

datatype handler = ResetProgram

text \<open>
  What the facade reaches through \<^verbatim>\<open>this.global\<close>:
  \<^item> \<open>sourceFileCache\<close>: the compiler factory's cache, the tracked files with their full
    text, in insertion order;
  \<^item> \<open>storage\<close>: the files of the backing file system;
  \<^item> \<open>isDefaultFileSystemHost\<close>: whether the file system is an instance of
    \<^verbatim>\<open>DefaultFileSystemHost\<close>;
  \<^item> \<open>formatCodeSettings\<close>: what \<^verbatim>\<open>global.getFormatCodeSettings()\<close> returns, a fresh object
    on every call;
  \<^item> \<open>editorSettings\<close>: what \<^verbatim>\<open>manipulationSettings.getEditorSettings()\<close> returns.
\<close>

record GlobalContainer =
  sourceFileCache :: "(path \<times> string) list"
  storage :: "path \<rightharpoonup> string"
  isDefaultFileSystemHost :: bool
  currentDirectory :: string
  compilerOptions :: jsobject
  newLineKindAsString :: string
  formatCodeSettings :: jsobject
  editorSettings :: jsobject
  sourceFileAddedHandlers :: "handler list"
  sourceFileRemovedHandlers :: "handler list"

text \<open>
  The functions of other modules and of the \<^verbatim>\<open>typescript\<close> package that the facade calls.
  They are parameters of the model. Every query of \<^verbatim>\<open>ts.LanguageService\<close> may read the
  global container through its host, may raise (\<open>Inl\<close> with the message), and where the
  facade guards the result with \<^verbatim>\<open>|| []\<close> may return \<^verbatim>\<open>undefined\<close> (\<open>None\<close>).
\<close>

record Externals =
  getStandardizedAbsolutePath :: "string \<Rightarrow> path"
  pathJoin :: "string \<Rightarrow> string \<Rightarrow> string"
  ts_getDefaultLibFilePath :: "jsobject \<Rightarrow> string"
  ts_getDefaultLibFileName :: "jsobject \<Rightarrow> string"
  getDefinitionInfo :: "ts_DocumentSpan \<Rightarrow> DefinitionInfo"
  getReferencedSymbol :: "ts_ReferencedSymbol \<Rightarrow> ReferencedSymbol"
  formatCodeDefaults :: "(string \<times> jsval) list"
  editorDefaults :: "(string \<times> jsval) list"
  ts_getDefinitionAtPosition ::
    "GlobalContainer \<Rightarrow> path \<Rightarrow> int \<Rightarrow> string + ts_DocumentSpan list option"
  ts_getImplementationAtPosition ::
    "GlobalContainer \<Rightarrow> path \<Rightarrow> int \<Rightarrow> string + ts_DocumentSpan list option"
  ts_findReferences ::
    "GlobalContainer \<Rightarrow> path \<Rightarrow> int \<Rightarrow> string + ts_ReferencedSymbol list option"
  ts_findRenameLocations ::
    "GlobalContainer \<Rightarrow> path \<Rightarrow> int \<Rightarrow> bool \<Rightarrow> bool \<Rightarrow> string + ts_DocumentSpan list option"
  ts_getFormattingEditsForRange ::
    "GlobalContainer \<Rightarrow> path \<Rightarrow> int \<Rightarrow> int \<Rightarrow> jsobject \<Rightarrow> string + ts_TextChange list option"
  ts_getFormattingEditsForDocument ::
    "GlobalContainer \<Rightarrow> path \<Rightarrow> jsobject \<Rightarrow> string + ts_TextChange list option"
  ts_getEmitOutput ::
    "GlobalContainer \<Rightarrow> path \<Rightarrow> bool option \<Rightarrow> string + ts_EmitOutput"
  ts_getIndentationAtPosition ::
    "GlobalContainer \<Rightarrow> path \<Rightarrow> int \<Rightarrow> jsobject \<Rightarrow> string + int"
  ts_organizeImports ::
    "GlobalContainer \<Rightarrow> path \<Rightarrow> jsobject \<Rightarrow> string + ts_FileTextChanges list option"

subsection \<open>The compiler factory's cache and the file system wrapper\<close>

text \<open>
  Modelled from the spec: the accessors of the compiler factory and of the file system
  wrapper are not among the sources. Following the spec's file tracking and backing storage
  collaborators, they list the tracked paths, say whether a path is tracked, give the cached
  file at a path or none, and say whether a file exists in storage.
\<close>

definition containsSourceFileAtPath :: "GlobalContainer \<Rightarrow> path \<Rightarrow> bool" where
  "containsSourceFileAtPath g p = (map_of (sourceFileCache g) p \<noteq> None)"

definition getSourceFilePaths :: "GlobalContainer \<Rightarrow> path list" where
  "getSourceFilePaths g = map fst (sourceFileCache g)"

definition getSourceFileFromCacheFromFilePath :: "GlobalContainer \<Rightarrow> path \<Rightarrow> SourceFile option" where
  "getSourceFileFromCacheFromFilePath g p =
     (case map_of (sourceFileCache g) p of
        None \<Rightarrow> None
      | Some t \<Rightarrow> Some \<lparr>getFilePath = p, getFullText = t\<rparr>)"

definition fileSystemWrapper_fileExistsSync :: "GlobalContainer \<Rightarrow> path \<Rightarrow> bool" where
  "fileSystemWrapper_fileExistsSync g p = (storage g p \<noteq> None)"

subsection \<open>JavaScript coercions\<close>

text \<open>The value of \<^verbatim>\<open>obj[k]\<close> in a condition: an absent property reads as
  \<^verbatim>\<open>undefined\<close>.\<close>

fun truthy :: "jsval option \<Rightarrow> bool" where
  "truthy None = False"
| "truthy (Some JUndefined) = False"
| "truthy (Some (JBool b)) = b"
| "truthy (Some (JNum n)) = (n \<noteq> 0)"
| "truthy (Some (JStr s)) = (s \<noteq> [])"

text \<open>The value of \<^verbatim>\<open>obj[k]\<close> where a string is used.\<close>

fun jsToString :: "jsval option \<Rightarrow> string" where
  "jsToString None = ''undefined''"
| "jsToString (Some JUndefined) = ''undefined''"
| "jsToString (Some (JBool b)) = (if b then ''true'' else ''false'')"
| "jsToString (Some (JNum n)) = (if n < 0 then ''-'' @ toString (nat (- n)) else toString (nat n))"
| "jsToString (Some (JStr s)) = s"

text \<open>\<^verbatim>\<open>results || []\<close>: an array is truthy, also when empty.\<close>

fun orEmpty :: "'a list option \<Rightarrow> 'a list" where
  "orEmpty None = []"
| "orEmpty (Some xs) = xs"

text \<open>An exception of the language service passes through the facade.\<close>

fun viaEngine :: "string + 'a \<Rightarrow> error + 'a" where
  "viaEngine (Inl m) = Inl (EngineError m)"
| "viaEngine (Inr v) = Inr v"

text \<open>Sequencing of statements that can throw.\<close>

fun bindE :: "error + 'a \<Rightarrow> ('a \<Rightarrow> error + 'b) \<Rightarrow> error + 'b" where
  "bindE (Inl e) f = Inl e"
| "bindE (Inr v) f = f v"

section \<open>The language service and its hosts\<close>

text \<open>
  Modelled from the spec: the class \<^verbatim>\<open>Program\<close> (\<^verbatim>\<open>./Program\<close>) is not among the
  sources. Following the spec's program lifecycle, a program keeps the file-path list it was
  last reset with and the engine program derived from it, if built; a reset stores the list
  and discards the derived program; an access while stale rebuilds from the stored list. The
  compile host handed over with the list is the one host of the service and is left out.
\<close>

record Program =
  rootNames :: "path list"
  compiled :: "path list option"

definition Program_new :: "path list \<Rightarrow> Program" where
  "Program_new names = \<lparr>rootNames = names, compiled = Some names\<rparr>"

definition Program_reset :: "path list \<Rightarrow> Program \<Rightarrow> Program" where
  "Program_reset names p = p\<lparr>rootNames := names, compiled := None\<rparr>"

definition Program_compilerObject :: "Program \<Rightarrow> path list \<times> Program" where
  "Program_compilerObject p =
     (case compiled p of
        Some fs \<Rightarrow> (fs, p)
      | None \<Rightarrow> (rootNames p, p\<lparr>compiled := Some (rootNames p)\<rparr>))"

text \<open>The fields of the class, and the variable \<^verbatim>\<open>version\<close> of the constructor that the
  host's closure keeps: one counter for the service and the engine it creates, a JavaScript
  number that starts at 0 and holds naturals only.\<close>

record LanguageService =
  global :: GlobalContainer
  version :: nat
  program :: Program

definition resetProgram :: "LanguageService \<Rightarrow> LanguageService" where
  "resetProgram ls = ls\<lparr>program := Program_reset (getSourceFilePaths (global ls)) (program ls)\<rparr>"

definition getProgram :: "LanguageService \<Rightarrow> Program" where
  "getProgram ls = program ls"

fun runHandler :: "handler \<Rightarrow> LanguageService \<Rightarrow> LanguageService" where
  "runHandler ResetProgram ls = resetProgram ls"

definition fire :: "handler list \<Rightarrow> LanguageService \<Rightarrow> LanguageService" where
  "fire hs ls = fold runHandler hs ls"

text \<open>The constructor: the counter starts at 0, the program is created from the current
  file-path list, and \<^verbatim>\<open>resetProgram\<close> is subscribed to both events.\<close>

definition LanguageService_new :: "GlobalContainer \<Rightarrow> LanguageService" where
  "LanguageService_new g =
     \<lparr>global = g\<lparr>sourceFileAddedHandlers := sourceFileAddedHandlers g @ [ResetProgram],
                  sourceFileRemovedHandlers := sourceFileRemovedHandlers g @ [ResetProgram]\<rparr>,
      version = 0,
      program = Program_new (getSourceFilePaths g)\<rparr>"

subsection \<open>The compiler factory's mutations\<close>

text \<open>
  Modelled from the spec: the compiler factory (\<^verbatim>\<open>global.compilerFactory\<close>) is not among
  the sources. Following the spec's file tracking collaborator, adding a file puts it into
  the cache (replacing the text of a file already tracked) and removing a tracked file takes
  it out; each then fires its notification synchronously, before the call returns.
\<close>

definition setCached :: "path \<Rightarrow> string \<Rightarrow> (path \<times> string) list \<Rightarrow> (path \<times> string) list" where
  "setCached p t c =
     (if map_of c p = None then c @ [(p, t)]
      else map (\<lambda>(q, u). if q = p then (q, t) else (q, u)) c)"

definition addSourceFile :: "path \<Rightarrow> string \<Rightarrow> LanguageService \<Rightarrow> LanguageService" where
  "addSourceFile p t ls =
     (let g = global ls;
          ls1 = ls\<lparr>global := g\<lparr>sourceFileCache := setCached p t (sourceFileCache g)\<rparr>\<rparr>
      in fire (sourceFileAddedHandlers g) ls1)"

definition removeSourceFile :: "path \<Rightarrow> LanguageService \<Rightarrow> LanguageService" where
  "removeSourceFile p ls =
     (let g = global ls in
      if containsSourceFileAtPath g p then
        fire (sourceFileRemovedHandlers g)
          (ls\<lparr>global := g\<lparr>sourceFileCache := filter (\<lambda>(q, u). q \<noteq> p) (sourceFileCache g)\<rparr>\<rparr>)
      else ls)"

text \<open>
  Modelled from the spec: \<^verbatim>\<open>addOrGetSourceFileFromFilePath\<close> of the compiler factory is
  not among the sources. It is the spec's "get-or-load file at path": the cached file if
  there is one, else the file loaded from backing storage into the cache (an addition, so
  the notification fires), else nothing.
\<close>

definition addOrGetSourceFileFromFilePath ::
    "path \<Rightarrow> LanguageService \<Rightarrow> SourceFile option \<times> LanguageService" where
  "addOrGetSourceFileFromFilePath p ls =
     (case getSourceFileFromCacheFromFilePath (global ls) p of
        Some sf \<Rightarrow> (Some sf, ls)
      | None \<Rightarrow>
          (case storage (global ls) p of
             None \<Rightarrow> (None, ls)
           | Some t \<Rightarrow> (Some \<lparr>getFilePath = p, getFullText = t\<rparr>, addSourceFile p t ls)))"

datatype mutation = AddFile path string | RemoveFile path

fun mutate :: "mutation \<Rightarrow> LanguageService \<Rightarrow> LanguageService" where
  "mutate (AddFile p t) ls = addSourceFile p t ls"
| "mutate (RemoveFile p) ls = removeSourceFile p ls"

subsection \<open>The language service host\<close>

definition fileExistsSync :: "LanguageService \<Rightarrow> path \<Rightarrow> bool" where
  "fileExistsSync ls p =
     (containsSourceFileAtPath (global ls) p \<or> fileSystemWrapper_fileExistsSync (global ls) p)"

definition languageServiceHost_getNewLine :: "LanguageService \<Rightarrow> string" where
  "languageServiceHost_getNewLine ls = newLineKindAsString (global ls)"

definition languageServiceHost_getScriptFileNames :: "LanguageService \<Rightarrow> path list" where
  "languageServiceHost_getScriptFileNames ls = getSourceFilePaths (global ls)"

text \<open>\<^verbatim>\<open>return (version++).toString();\<close> The file name is not read. The counter is a
  JavaScript number, a double: from 0 on the increment is exact up to \<open>2\<^sup>5\<^sup>3\<close>, and there
  \<^verbatim>\<open>version++\<close> leaves the value as it is, because \<open>2\<^sup>5\<^sup>3 + 1\<close> is not a double and rounds
  back to \<open>2\<^sup>5\<^sup>3\<close>. The counter of a service starts at 0, so it never holds another value
  than the naturals up to \<open>2\<^sup>5\<^sup>3\<close>.\<close>

definition maxExactCounter :: nat where
  "maxExactCounter = 2 ^ 53"

definition postIncrement :: "nat \<Rightarrow> nat" where
  "postIncrement v = (if v < maxExactCounter then v + 1 else v)"

definition getScriptVersion :: "path \<Rightarrow> LanguageService \<Rightarrow> string \<times> LanguageService" where
  "getScriptVersion fileName ls =
     (toString (version ls), ls\<lparr>version := postIncrement (version ls)\<rparr>)"

text \<open>The snapshot is the full text (\<open>Some\<close>), or \<^verbatim>\<open>undefined\<close> (\<open>None\<close>). The non-null
  assertion on the file that \<^verbatim>\<open>addOrGetSourceFileFromFilePath\<close> returns is a
  \<open>TypeError\<close> where it returns nothing.\<close>

definition getScriptSnapshot ::
    "path \<Rightarrow> LanguageService \<Rightarrow> (error + string option) \<times> LanguageService" where
  "getScriptSnapshot fileName ls =
     (if \<not> fileExistsSync ls fileName then (Inr None, ls)
      else
        (case addOrGetSourceFileFromFilePath fileName ls of
           (None, ls') \<Rightarrow> (Inl TypeError, ls')
         | (Some sf, ls') \<Rightarrow> (Inr (Some (getFullText sf)), ls')))"

definition languageServiceHost_getCurrentDirectory :: "LanguageService \<Rightarrow> string" where
  "languageServiceHost_getCurrentDirectory ls = currentDirectory (global ls)"

text \<open>The argument \<^verbatim>\<open>options\<close> is not read: both branches use the global compiler options.\<close>

definition languageServiceHost_getDefaultLibFileName ::
    "Externals \<Rightarrow> LanguageService \<Rightarrow> jsobject \<Rightarrow> string" where
  "languageServiceHost_getDefaultLibFileName X ls options =
     (if isDefaultFileSystemHost (global ls)
      then ts_getDefaultLibFilePath X (compilerOptions (global ls))
      else pathJoin X (currentDirectory (global ls))
             (''node_modules/typescript/lib/'' @ ts_getDefaultLibFileName X (compilerOptions (global ls))))"

definition languageServiceHost_useCaseSensitiveFileNames :: "LanguageService \<Rightarrow> bool" where
  "languageServiceHost_useCaseSensitiveFileNames ls = True"

subsection \<open>The compile host\<close>

definition compilerHost_getDefaultLibFileName ::
    "Externals \<Rightarrow> LanguageService \<Rightarrow> jsobject \<Rightarrow> string" where
  "compilerHost_getDefaultLibFileName X ls options =
     languageServiceHost_getDefaultLibFileName X ls options"

text \<open>\<^verbatim>\<open>getSourceFile\<close> returns the compiler node of the file that the compiler factory gets
  or loads, or \<^verbatim>\<open>undefined\<close>; the file stands for its node here.\<close>

definition compilerHost_getSourceFile ::
    "path \<Rightarrow> LanguageService \<Rightarrow> SourceFile option \<times> LanguageService" where
  "compilerHost_getSourceFile fileName ls = addOrGetSourceFileFromFilePath fileName ls"

definition compilerHost_getCurrentDirectory :: "LanguageService \<Rightarrow> string" where
  "compilerHost_getCurrentDirectory ls = languageServiceHost_getCurrentDirectory ls"

definition compilerHost_fileExists :: "LanguageService \<Rightarrow> path \<Rightarrow> bool" where
  "compilerHost_fileExists ls fileName = fileExistsSync ls fileName"

definition compilerHost_useCaseSensitiveFileNames :: "LanguageService \<Rightarrow> bool" where
  "compilerHost_useCaseSensitiveFileNames ls = languageServiceHost_useCaseSensitiveFileNames ls"

definition compilerHost_getNewLine :: "LanguageService \<Rightarrow> string" where
  "compilerHost_getNewLine ls = languageServiceHost_getNewLine ls"

section \<open>The facade\<close>

subsection \<open>Paths and settings\<close>

text \<open>An argument that is a path or a source file.\<close>

datatype filePathOrSourceFile = FilePath string | File SourceFile

text \<open>\<^verbatim>\<open>_getFilePathFromFilePathOrSourceFile\<close>: the path is the standardized absolute path
  of a string argument, or the path of a source file argument (\<open>pathOf\<close>), and has to be
  tracked.\<close>

fun pathOf :: "Externals \<Rightarrow> filePathOrSourceFile \<Rightarrow> path" where
  "pathOf X (FilePath str) = getStandardizedAbsolutePath X str"
| "pathOf X (File sf) = getFilePath sf"

definition getFilePathFromFilePathOrSourceFile ::
    "Externals \<Rightarrow> GlobalContainer \<Rightarrow> filePathOrSourceFile \<Rightarrow> error + path" where
  "getFilePathFromFilePathOrSourceFile X g filePathOrSourceFile =
     (let filePath = pathOf X filePathOrSourceFile
      in if \<not> containsSourceFileAtPath g filePath then Inl (FileNotFoundError filePath)
         else Inr filePath)"

text \<open>
  Modelled from the spec: \<^verbatim>\<open>ObjectUtils.assign\<close>, \<^verbatim>\<open>fillDefaultFormatCodeSettings\<close> and
  \<^verbatim>\<open>fillDefaultEditorSettings\<close> (\<^verbatim>\<open>../../utils\<close>) are not among the sources. The first
  copies every property of its second argument over the first; the fills give each listed
  field that is still unset its default, the defaults being parameters.
\<close>

definition ObjectUtils_assign :: "jsobject \<Rightarrow> jsobject \<Rightarrow> jsobject" where
  "ObjectUtils_assign a b = a ++ b"

fun isUnset :: "jsval option \<Rightarrow> bool" where
  "isUnset None = True"
| "isUnset (Some JUndefined) = True"
| "isUnset (Some v) = False"

definition setValueIfUndefined :: "string \<times> jsval \<Rightarrow> jsobject \<Rightarrow> jsobject" where
  "setValueIfUndefined kv obj = (if isUnset (obj (fst kv)) then obj(fst kv \<mapsto> snd kv) else obj)"

definition fillDefaultFormatCodeSettings :: "Externals \<Rightarrow> jsobject \<Rightarrow> jsobject" where
  "fillDefaultFormatCodeSettings X settings = fold setValueIfUndefined (formatCodeDefaults X) settings"


text \<open>\<^verbatim>\<open>_getFilledSettings\<close>. The object returned by the slow path is the one
  \<^verbatim>\<open>ObjectUtils.assign\<close> returned, marked as filled.\<close>

definition getFilledSettings :: "Externals \<Rightarrow> GlobalContainer \<Rightarrow> jsobject \<Rightarrow> jsobject" where
  "getFilledSettings X g settings =
     (if truthy (settings ''_filled'') then settings
      else (fillDefaultFormatCodeSettings X (ObjectUtils_assign (formatCodeSettings g) settings))
             (''_filled'' \<mapsto> JBool True))"

subsection \<open>Definitions, implementations, references\<close>

definition getDefinitionsAtPosition ::
    "Externals \<Rightarrow> GlobalContainer \<Rightarrow> SourceFile \<Rightarrow> int \<Rightarrow> error + DefinitionInfo list" where
  "getDefinitionsAtPosition X g sourceFile pos =
     bindE (viaEngine (ts_getDefinitionAtPosition X g (getFilePath sourceFile) pos))
       (\<lambda>results. Inr (map (getDefinitionInfo X) (orEmpty results)))"

definition getDefinitions :: "Externals \<Rightarrow> GlobalContainer \<Rightarrow> Node \<Rightarrow> error + DefinitionInfo list" where
  "getDefinitions X g node = getDefinitionsAtPosition X g (getSourceFile node) (getStart node)"

definition getImplementationsAtPosition ::
    "Externals \<Rightarrow> GlobalContainer \<Rightarrow> SourceFile \<Rightarrow> int \<Rightarrow> error + ImplementationLocation list" where
  "getImplementationsAtPosition X g sourceFile pos =
     bindE (viaEngine (ts_getImplementationAtPosition X g (getFilePath sourceFile) pos))
       (\<lambda>results. Inr (map ImplementationLocation (orEmpty results)))"

definition getImplementations ::
    "Externals \<Rightarrow> GlobalContainer \<Rightarrow> Node \<Rightarrow> error + ImplementationLocation list" where
  "getImplementations X g node = getImplementationsAtPosition X g (getSourceFile node) (getStart node)"

definition findReferencesAtPosition ::
    "Externals \<Rightarrow> GlobalContainer \<Rightarrow> SourceFile \<Rightarrow> int \<Rightarrow> error + ReferencedSymbol list" where
  "findReferencesAtPosition X g sourceFile pos =
     bindE (viaEngine (ts_findReferences X g (getFilePath sourceFile) pos))
       (\<lambda>results. Inr (map (getReferencedSymbol X) (orEmpty results)))"

definition findReferences ::
    "Externals \<Rightarrow> GlobalContainer \<Rightarrow> Node \<Rightarrow> error + ReferencedSymbol list" where
  "findReferences X g node = findReferencesAtPosition X g (getSourceFile node) (getStart node)"

text \<open>The inner loop of the generator \<^verbatim>\<open>getReferencingNodes\<close>, for one reference symbol.\<close>

fun yieldReferences :: "bool \<Rightarrow> ReferenceEntry list \<Rightarrow> Node list" where
  "yieldReferences isAlias [] = []"
| "yieldReferences isAlias (reference # rest) =
     (if isAlias \<or> \<not> isDefinition reference
      then getNode reference # yieldReferences isAlias rest
      else yieldReferences isAlias rest)"

text \<open>The outer loop; the result is what \<^verbatim>\<open>ArrayUtils.from\<close> collects.\<close>

fun getReferencingNodes :: "ReferencedSymbol list \<Rightarrow> Node list" where
  "getReferencingNodes [] = []"
| "getReferencingNodes (referenceSymbol # rest) =
     (let isAlias = (getDefinitionKind referenceSymbol = ScriptElementKind_alias)
      in yieldReferences isAlias (getReferences referenceSymbol) @ getReferencingNodes rest)"

definition getDefinitionReferencingNodes ::
    "Externals \<Rightarrow> GlobalContainer \<Rightarrow> Node \<Rightarrow> error + Node list" where
  "getDefinitionReferencingNodes X g node =
     bindE (findReferences X g node) (\<lambda>refs. Inr (getReferencingNodes refs))"

text \<open>The claim's wording of the same result, for comparison: per group, every occurrence
  when the group's definition is an alias, else the occurrences that are not definitions.\<close>

definition groupNodes_spec :: "ReferencedSymbol \<Rightarrow> Node list" where
  "groupNodes_spec grp =
     (if getDefinitionKind grp = ''alias'' then map getNode (getReferences grp)
      else map getNode (filter (\<lambda>r. \<not> isDefinition r) (getReferences grp)))"

definition referencingNodes_spec :: "ReferencedSymbol list \<Rightarrow> Node list" where
  "referencingNodes_spec groups = concat (map groupNodes_spec groups)"

subsection \<open>Rename\<close>

definition findRenameLocations ::
    "Externals \<Rightarrow> GlobalContainer \<Rightarrow> Node \<Rightarrow> error + RenameLocation list" where
  "findRenameLocations X g node =
     (let sourceFile = getSourceFile node in
      bindE (viaEngine (ts_findRenameLocations X g (getFilePath sourceFile) (getStart node) False False))
        (\<lambda>renameLocations. Inr (map RenameLocation (orEmpty renameLocations))))"

text \<open>
  Modelled from the spec: \<^verbatim>\<open>errors.throwIfNotStringOrWhitespace\<close> (\<^verbatim>\<open>../../errors\<close>) is
  not among the sources. A blank or whitespace-only name is an invalid argument; the
  argument is a string by its type.
\<close>

definition isWhitespaceChar :: "char \<Rightarrow> bool" where
  "isWhitespaceChar c = (c \<in> set [CHR '' '', CHR 0x09, CHR 0x0A, CHR 0x0B, CHR 0x0C, CHR 0x0D])"

definition throwIfNotStringOrWhitespace :: "string \<Rightarrow> string \<Rightarrow> error + unit" where
  "throwIfNotStringOrWhitespace val argName =
     (if list_all isWhitespaceChar val then Inl (ArgumentNullOrWhitespaceError argName)
      else Inr ())"

fun renameLocation_getSourceFile :: "RenameLocation \<Rightarrow> path" where
  "renameLocation_getSourceFile (RenameLocation l) = spanFileName l"

fun renameLocation_getTextSpan :: "RenameLocation \<Rightarrow> int \<times> int" where
  "renameLocation_getTextSpan (RenameLocation l) = (textSpanStart l, textSpanLength l)"

text \<open>\<^verbatim>\<open>getOrCreate(key, () => [])\<close> followed by \<^verbatim>\<open>push\<close> on a key-value cache that keeps
  its keys in insertion order.\<close>

definition pushLocation ::
    "RenameLocation \<Rightarrow> (path \<times> RenameLocation list) list \<Rightarrow> (path \<times> RenameLocation list) list" where
  "pushLocation l c =
     (let k = renameLocation_getSourceFile l in
      if map_of c k = None then c @ [(k, [l])]
      else map (\<lambda>(q, ls). if q = k then (q, ls @ [l]) else (q, ls)) c)"

text \<open>
  Modelled from the spec: \<^verbatim>\<open>replaceSourceFileTextForRename\<close> (\<^verbatim>\<open>../../manipulation\<close>) is
  not among the sources. The replacements of one file are applied in a single pass over
  the locations, their offsets being those of the original text: \<open>difference\<close> is by how much
  the text has shrunk so far.
\<close>

fun replaceSpans :: "string \<Rightarrow> int \<Rightarrow> (int \<times> int) list \<Rightarrow> string \<Rightarrow> string" where
  "replaceSpans txt difference [] newName = txt"
| "replaceSpans txt difference ((start, len) # rest) newName =
     (let s = nat (start - difference); e = nat (start + len - difference)
      in replaceSpans (take s txt @ newName @ drop e txt)
           (difference + len - int (length newName)) rest newName)"

definition replaceSourceFileTextForRename ::
    "path \<times> RenameLocation list \<Rightarrow> string \<Rightarrow> GlobalContainer \<Rightarrow> GlobalContainer" where
  "replaceSourceFileTextForRename entry newName g =
     g\<lparr>sourceFileCache :=
         map (\<lambda>(q, t). if q = fst entry
                then (q, replaceSpans t 0 (map renameLocation_getTextSpan (snd entry)) newName)
                else (q, t))
           (sourceFileCache g)\<rparr>"

definition renameLocations :: "RenameLocation list \<Rightarrow> string \<Rightarrow> GlobalContainer \<Rightarrow> GlobalContainer" where
  "renameLocations locations newName g =
     (let renameLocationsBySourceFile = fold pushLocation locations []
      in fold (\<lambda>entry. replaceSourceFileTextForRename entry newName) renameLocationsBySourceFile g)"

text \<open>The result is what the call ends with and the global container it leaves.\<close>

definition renameNode ::
    "Externals \<Rightarrow> Node \<Rightarrow> string \<Rightarrow> GlobalContainer \<Rightarrow> (error + unit) \<times> GlobalContainer" where
  "renameNode X node newName g =
     (case throwIfNotStringOrWhitespace newName ''newName'' of
        Inl e \<Rightarrow> (Inl e, g)
      | Inr u \<Rightarrow>
          if getText node = newName then (Inr (), g)
          else
            (case findRenameLocations X g node of
               Inl e \<Rightarrow> (Inl e, g)
             | Inr locations \<Rightarrow> (Inr (), renameLocations locations newName g)))"

subsection \<open>Formatting\<close>

definition getFormattingEditsForRange ::
    "Externals \<Rightarrow> GlobalContainer \<Rightarrow> path \<Rightarrow> int \<times> int \<Rightarrow> jsobject \<Rightarrow> error + TextChange list" where
  "getFormattingEditsForRange X g filePath rng settings =
     bindE (viaEngine (ts_getFormattingEditsForRange X g filePath (fst rng) (snd rng)
                         (getFilledSettings X g settings)))
       (\<lambda>edits. Inr (map TextChange (orEmpty edits)))"

definition getFormattingEditsForDocument ::
    "Externals \<Rightarrow> GlobalContainer \<Rightarrow> path \<Rightarrow> jsobject \<Rightarrow> error + TextChange list" where
  "getFormattingEditsForDocument X g filePath settings =
     bindE (viaEngine (ts_getFormattingEditsForDocument X g filePath (getFilledSettings X g settings)))
       (\<lambda>edits. Inr (map TextChange (orEmpty edits)))"

text \<open>
  Modelled from the spec: \<^verbatim>\<open>getTextFromFormattingEdits\<close> (\<^verbatim>\<open>../../manipulation\<close>) is not
  among the sources. The edits are applied to the file's full text in order, each replacing
  its span by its new text.
\<close>

fun applyTextChange :: "TextChange \<Rightarrow> string \<Rightarrow> string" where
  "applyTextChange (TextChange c) txt =
     take (nat (spanStart c)) txt @ changeNewText c @ drop (nat (spanStart c + spanLength c)) txt"

definition getTextFromFormattingEdits :: "SourceFile \<Rightarrow> TextChange list \<Rightarrow> string" where
  "getTextFromFormattingEdits sourceFile formattingEdits =
     fold applyTextChange formattingEdits (getFullText sourceFile)"

text \<open>\<^verbatim>\<open>StringUtils.endsWith\<close>\<close>

definition endsWith :: "string \<Rightarrow> string \<Rightarrow> bool" where
  "endsWith str endsWithString =
     (length endsWithString \<le> length str
      \<and> drop (length str - length endsWithString) str = endsWithString)"

text \<open>The replacement string of \<^verbatim>\<open>String.prototype.replace\<close> is a template: \<^verbatim>\<open>$$\<close> stands
  for a dollar sign, \<^verbatim>\<open>$&\<close> for the matched text, \<^verbatim>\<open>$`\<close> for the text before the match and
  \<^verbatim>\<open>$'\<close> for the text after it. The pattern has no capture group, so a dollar sign before
  anything else stands for itself.\<close>

fun expandReplacement :: "string \<Rightarrow> string \<Rightarrow> string \<Rightarrow> string \<Rightarrow> string" where
  "expandReplacement [] matched before after = []"
| "expandReplacement [c] matched before after = [c]"
| "expandReplacement (c # d # rest) matched before after =
     (if c = CHR ''$'' \<and> d = CHR ''$'' then CHR ''$'' # expandReplacement rest matched before after
      else if c = CHR ''$'' \<and> d = CHR ''&'' then matched @ expandReplacement rest matched before after
      else if c = CHR ''$'' \<and> d = CHR 0x60 then before @ expandReplacement rest matched before after
      else if c = CHR ''$'' \<and> d = CHR 0x27 then after @ expandReplacement rest matched before after
      else c # expandReplacement (d # rest) matched before after)"

text \<open>\<^verbatim>\<open>str.replace(/\r?\n/g, newLineChar)\<close>: every line feed, together with a carriage return
  right before it, becomes the expanded replacement; a carriage return that no line feed
  follows stays. \<open>before\<close> is the part of the string already passed.\<close>

fun replaceFrom :: "string \<Rightarrow> string \<Rightarrow> string \<Rightarrow> string" where
  "replaceFrom before [] newLineChar = []"
| "replaceFrom before [c] newLineChar =
     (if c = CHR 0x0A then expandReplacement newLineChar [c] before [] else [c])"
| "replaceFrom before (c # d # rest) newLineChar =
     (if c = CHR 0x0D \<and> d = CHR 0x0A
      then expandReplacement newLineChar [c, d] before rest
             @ replaceFrom (before @ [c, d]) rest newLineChar
      else if c = CHR 0x0A
      then expandReplacement newLineChar [c] before (d # rest)
             @ replaceFrom (before @ [c]) (d # rest) newLineChar
      else c # replaceFrom (before @ [c]) (d # rest) newLineChar)"

definition replaceNewLines :: "string \<Rightarrow> string \<Rightarrow> string" where
  "replaceNewLines str newLineChar = replaceFrom [] str newLineChar"

definition getFormattedDocumentText ::
    "Externals \<Rightarrow> GlobalContainer \<Rightarrow> path \<Rightarrow> jsobject \<Rightarrow> error + string" where
  "getFormattedDocumentText X g filePath settings =
     (case getSourceFileFromCacheFromFilePath g filePath of
        None \<Rightarrow> Inl (FileNotFoundError filePath)
      | Some sourceFile \<Rightarrow>
          (let settings1 = getFilledSettings X g settings in
           bindE (getFormattingEditsForDocument X g filePath settings1)
             (\<lambda>formattingEdits.
                let newText = getTextFromFormattingEdits sourceFile formattingEdits;
                    newLineChar = jsToString (settings1 ''newLineCharacter'');
                    newText1 =
                      (if truthy (settings1 ''ensureNewLineAtEndOfFile'') \<and> \<not> endsWith newText newLineChar
                       then newText @ newLineChar else newText)
                in Inr (replaceNewLines newText1 newLineChar))))"

text \<open>The claim's wording of the reconstruction, for comparison: apply the edits, then
  normalize every line terminator to the newline string, and then append one newline if the
  text does not end with one.\<close>

fun normalizeNewLines :: "string \<Rightarrow> string \<Rightarrow> string" where
  "normalizeNewLines [] newLineChar = []"
| "normalizeNewLines [c] newLineChar = (if c = CHR 0x0A then newLineChar else [c])"
| "normalizeNewLines (c # d # rest) newLineChar =
     (if c = CHR 0x0D \<and> d = CHR 0x0A then newLineChar @ normalizeNewLines rest newLineChar
      else if c = CHR 0x0A then newLineChar @ normalizeNewLines (d # rest) newLineChar
      else c # normalizeNewLines (d # rest) newLineChar)"

definition formattedText_spec :: "string \<Rightarrow> string \<Rightarrow> bool \<Rightarrow> string" where
  "formattedText_spec editedText newLineChar ensureNewLine =
     (let normalized = normalizeNewLines editedText newLineChar
      in if ensureNewLine \<and> \<not> endsWith normalized newLineChar then normalized @ newLineChar
         else normalized)"

subsection \<open>Emit, indentation, organize imports\<close>



text \<open>The default of the parameter \<^verbatim>\<open>settings\<close> is the empty object. The result of the
  language service is not guarded: \<^verbatim>\<open>.map\<close> on \<^verbatim>\<open>undefined\<close> is a \<open>TypeError\<close>.\<close>

definition organizeImports ::
    "Externals \<Rightarrow> GlobalContainer \<Rightarrow> filePathOrSourceFile \<Rightarrow> jsobject option \<Rightarrow> error + FileTextChanges list" where
  "organizeImports X g filePathOrSourceFile settings =
     bindE (getFilePathFromFilePathOrSourceFile X g filePathOrSourceFile)
       (\<lambda>fileName.
          bindE (viaEngine (ts_organizeImports X g fileName
                              (getFilledSettings X g (case settings of None \<Rightarrow> Map.empty | Some s \<Rightarrow> s))))
            (\<lambda>changes.
               case changes of
                 None \<Rightarrow> Inl TypeError
               | Some cs \<Rightarrow> Inr (map FileTextChanges cs)))"

section \<open>File-not-found failures\<close>

text \<open>The error of the language service for a file that is not in its program:
  \<^verbatim>\<open>Could not find file: '/missing.ts'.\<close>\<close>

definition couldNotFindFile :: "path \<Rightarrow> string" where
  "couldNotFindFile p = ''Could not find file: '' @ [CHR 0x27] @ p @ [CHR 0x27] @ ''.''"

definition isCouldNotFindFile :: "string \<Rightarrow> bool" where
  "isCouldNotFindFile m = (take (length ''Could not find file'') m = ''Could not find file'')"

fun raisesCouldNotFindFile :: "string + 'a \<Rightarrow> bool" where
  "raisesCouldNotFindFile (Inl m) = isCouldNotFindFile m"
| "raisesCouldNotFindFile (Inr v) = False"

text \<open>A call of the facade fails for the reason that a file was not found: with the facade's
  own error, or with that of the language service.\<close>

fun fileNotFound :: "error + 'a \<Rightarrow> bool" where
  "fileNotFound (Inl (FileNotFoundError p)) = True"
| "fileNotFound (Inl (EngineError m)) = isCouldNotFindFile m"
| "fileNotFound (Inl (ArgumentNullOrWhitespaceError a)) = False"
| "fileNotFound (Inl TypeError) = False"
| "fileNotFound (Inr v) = False"


section \<open>Sequences of host calls\<close>

text \<open>The versions that consecutive calls of the script-version callback return, one call per
  file name of the list.\<close>

fun getScriptVersions :: "path list \<Rightarrow> LanguageService \<Rightarrow> string list \<times> LanguageService" where
  "getScriptVersions [] ls = ([], ls)"
| "getScriptVersions (fileName # rest) ls =
     (case getScriptVersion fileName ls of
        (v, ls1) \<Rightarrow>
          (case getScriptVersions rest ls1 of
             (vs, ls2) \<Rightarrow> (v # vs, ls2)))"

text \<open>What the engine observes over time: it asks for the version of a file, and between
  its requests the tracked files change. An observation is the version returned, the file
  asked about and the text that file has at that moment, if it is tracked.\<close>

datatype hostEvent = VersionRequest path | Changed mutation

fun observations :: "hostEvent list \<Rightarrow> LanguageService \<Rightarrow> (string \<times> path \<times> string option) list" where
  "observations [] ls = []"
| "observations (VersionRequest fileName # rest) ls =
     (case getScriptVersion fileName ls of
        (v, ls1) \<Rightarrow> (v, fileName, map_of (sourceFileCache (global ls)) fileName) # observations rest ls1)"
| "observations (Changed m # rest) ls = observations rest (mutate m ls)"

text \<open>Any sequence of calls that reach the service: mutations of the tracked file set,
  accesses to the program's compiler object, and callbacks of the engine.\<close>

datatype operation =
  Mutate mutation | AccessProgram | Snapshot path | Version path | GetSourceFile path

fun operate :: "operation \<Rightarrow> LanguageService \<Rightarrow> LanguageService" where
  "operate (Mutate m) ls = mutate m ls"
| "operate AccessProgram ls = ls\<lparr>program := snd (Program_compilerObject (getProgram ls))\<rparr>"
| "operate (Snapshot p) ls = snd (getScriptSnapshot p ls)"
| "operate (Version p) ls = snd (getScriptVersion p ls)"
| "operate (GetSourceFile p) ls = snd (compilerHost_getSourceFile p ls)"

definition operations :: "operation list \<Rightarrow> LanguageService \<Rightarrow> LanguageService" where
  "operations ops ls = fold operate ops ls"

section \<open>A small project\<close>

text \<open>The project of the spec's example: two tracked files, and one more file that is only in
  backing storage, on a virtual file system. The language service of the example answers
  every list query with \<^verbatim>\<open>undefined\<close>.\<close>

definition exampleGlobal :: GlobalContainer where
  "exampleGlobal =
     \<lparr>sourceFileCache =
        [(''/a.ts'', ''const x = 1;''), (''/b.ts'', ''import {x} from ./a; console.log(x);'')],
      storage = [''/c.ts'' \<mapsto> ''export const z = 3;''],
      isDefaultFileSystemHost = False,
      currentDirectory = ''/project'',
      compilerOptions = Map.empty,
      newLineKindAsString = [CHR 0x0A],
      formatCodeSettings = [''indentSize'' \<mapsto> JNum 2, ''tabSize'' \<mapsto> JNum 2],
      editorSettings = [''indentSize'' \<mapsto> JNum 2],
      sourceFileAddedHandlers = [],
      sourceFileRemovedHandlers = []\<rparr>"

definition exampleSymbol :: "ts_ReferencedSymbol \<Rightarrow> ReferencedSymbol" where
  "exampleSymbol s =
     \<lparr>getDefinitionKind = nativeDefinitionKind s,
      getReferences =
        map (\<lambda>(d, isDef).
               \<lparr>isDefinition = isDef,
                getNode = \<lparr>getSourceFile = \<lparr>getFilePath = spanFileName d, getFullText = []\<rparr>,
                            getStart = textSpanStart d, getText = ''x''\<rparr>\<rparr>)
          (nativeReferences s)\<rparr>"

definition exampleExternals :: Externals where
  "exampleExternals =
     \<lparr>getStandardizedAbsolutePath = (\<lambda>s. case s of [] \<Rightarrow> ''/'' | c # cs \<Rightarrow> if c = CHR ''/'' then s else ''/'' @ s),
      pathJoin = (\<lambda>a b. a @ ''/'' @ b),
      ts_getDefaultLibFilePath = (\<lambda>opts. ''/usr/lib/node_modules/typescript/lib/lib.d.ts''),
      ts_getDefaultLibFileName = (\<lambda>opts. ''lib.d.ts''),
      getDefinitionInfo = DefinitionInfo,
      getReferencedSymbol = exampleSymbol,
      formatCodeDefaults =
        [(''newLineCharacter'', JStr [CHR 0x0A]), (''indentSize'', JNum 4),
         (''ensureNewLineAtEndOfFile'', JBool True)],
      editorDefaults = [(''indentSize'', JNum 4)],
      ts_getDefinitionAtPosition = (\<lambda>g p pos. Inr None),
      ts_getImplementationAtPosition = (\<lambda>g p pos. Inr None),
      ts_findReferences = (\<lambda>g p pos. Inr None),
      ts_findRenameLocations = (\<lambda>g p pos c s. Inr None),
      ts_getFormattingEditsForRange = (\<lambda>g p a b s. Inr None),
      ts_getFormattingEditsForDocument = (\<lambda>g p s. Inr None),
      ts_getEmitOutput = (\<lambda>g p d. Inr \<lparr>outputFiles = [], emitSkipped = False\<rparr>),
      ts_getIndentationAtPosition = (\<lambda>g p pos s. Inr 0),
      ts_organizeImports = (\<lambda>g p s. Inr None)\<rparr>"

definition exampleService :: LanguageService where
  "exampleService = LanguageService_new exampleGlobal"


definition exampleNode :: Node where
  "exampleNode =
     \<lparr>getSourceFile = \<lparr>getFilePath = ''/a.ts'', getFullText = ''const x = 1;''\<rparr>,
      getStart = 6, getText = ''x''\<rparr>"

text \<open>The answer of a language service to a references query on \<open>x\<close>: the declaration in
  \<^verbatim>\<open>/a.ts\<close> with its use in \<^verbatim>\<open>/b.ts\<close>, and the import binding of \<^verbatim>\<open>/b.ts\<close>, an alias
  whose one occurrence is its definition.\<close>

definition exampleReferences :: "ts_ReferencedSymbol list" where
  "exampleReferences =
     [\<lparr>nativeDefinitionKind = ''const'',
       nativeReferences =
         [(\<lparr>spanFileName = ''/a.ts'', textSpanStart = 6, textSpanLength = 1\<rparr>, True),
          (\<lparr>spanFileName = ''/b.ts'', textSpanStart = 33, textSpanLength = 1\<rparr>, False)]\<rparr>,
      \<lparr>nativeDefinitionKind = ''alias'',
       nativeReferences =
         [(\<lparr>spanFileName = ''/b.ts'', textSpanStart = 8, textSpanLength = 1\<rparr>, True)]\<rparr>]"

definition referencesExternals :: Externals where
  "referencesExternals = exampleExternals\<lparr>ts_findReferences := (\<lambda>g p pos. Inr (Some exampleReferences))\<rparr>"

definition nodeAt :: "path \<Rightarrow> int \<Rightarrow> Node" where
  "nodeAt p pos = \<lparr>getSourceFile = \<lparr>getFilePath = p, getFullText = []\<rparr>, getStart = pos, getText = ''x''\<rparr>"

text \<open>Settings a caller passes, and the answers of a language service with something to
  rename: the two occurrences of \<open>x\<close> in \<^verbatim>\<open>/b.ts\<close> and its declaration in \<^verbatim>\<open>/a.ts\<close>.\<close>

definition exampleSettings :: jsobject where
  "exampleSettings = [''indentSize'' \<mapsto> JNum 8]"

definition exampleRenameLocations :: "ts_DocumentSpan list" where
  "exampleRenameLocations =
     [\<lparr>spanFileName = ''/b.ts'', textSpanStart = 8, textSpanLength = 1\<rparr>,
      \<lparr>spanFileName = ''/a.ts'', textSpanStart = 6, textSpanLength = 1\<rparr>,
      \<lparr>spanFileName = ''/b.ts'', textSpanStart = 33, textSpanLength = 1\<rparr>]"

definition renameExternals :: Externals where
  "renameExternals =
     exampleExternals\<lparr>ts_findRenameLocations := (\<lambda>g p pos c s. Inr (Some exampleRenameLocations))\<rparr>"

text \<open>A language service whose every query raises, and one that answers a request to
  organize imports with the empty list.\<close>

definition raisingExternals :: Externals where
  "raisingExternals =
     exampleExternals
       \<lparr>ts_getDefinitionAtPosition := (\<lambda>g p pos. Inl ''Could not find file''),
        ts_getImplementationAtPosition := (\<lambda>g p pos. Inl ''Could not find file''),
        ts_findReferences := (\<lambda>g p pos. Inl ''Could not find file''),
        ts_findRenameLocations := (\<lambda>g p pos c s. Inl ''Could not find file''),
        ts_getFormattingEditsForRange := (\<lambda>g p a b s. Inl ''Could not find file''),
        ts_getFormattingEditsForDocument := (\<lambda>g p s. Inl ''Could not find file''),
        ts_getEmitOutput := (\<lambda>g p d. Inl ''Could not find file''),
        ts_getIndentationAtPosition := (\<lambda>g p pos s. Inl ''Could not find file''),
        ts_organizeImports := (\<lambda>g p s. Inl ''Could not find file'')\<rparr>"

definition emptyExternals :: Externals where
  "emptyExternals = exampleExternals\<lparr>ts_organizeImports := (\<lambda>g p s. Inr (Some []))\<rparr>"

text \<open>A project whose one file ends with a line feed, formatted for carriage return and
  line feed.\<close>

definition lfGlobal :: GlobalContainer where
  "lfGlobal = exampleGlobal\<lparr>sourceFileCache := [(''/lf.ts'', ''a'' @ [CHR 0x0A])]\<rparr>"

definition crlfSettings :: jsobject where
  "crlfSettings = [''newLineCharacter'' \<mapsto> JStr [CHR 0x0D, CHR 0x0A],
                   ''ensureNewLineAtEndOfFile'' \<mapsto> JBool True]"


text \<open>The number of version requests among the events.\<close>

fun versionRequests :: "hostEvent list \<Rightarrow> nat" where
  "versionRequests [] = 0"
| "versionRequests (VersionRequest fileName # rest) = Suc (versionRequests rest)"
| "versionRequests (Changed m # rest) = versionRequests rest"

section \<open>The invariant of the program lifecycle\<close>

text \<open>The service is subscribed to both events, and its program was last reset with the
  current file-path list: it is stale, or built from that list.\<close>

definition coherent :: "LanguageService \<Rightarrow> bool" where
  "coherent ls =
     (ResetProgram \<in> set (sourceFileAddedHandlers (global ls))
      \<and> ResetProgram \<in> set (sourceFileRemovedHandlers (global ls))
      \<and> rootNames (program ls) = getSourceFilePaths (global ls)
      \<and> compiled (program ls) \<in> {None, Some (getSourceFilePaths (global ls))})"

section \<open>Properties\<close>

subsection \<open>Auxiliary facts\<close>

lemma yieldReferences_filter:
  "yieldReferences a rs = map getNode (filter (\<lambda>r. a \<or> \<not> isDefinition r) rs)"
  by (induction rs) auto

lemma getReferencingNodes_spec: "getReferencingNodes gs = referencingNodes_spec gs"
  by (induction gs)
     (auto simp: referencingNodes_spec_def groupNodes_spec_def yieldReferences_filter
        ScriptElementKind_alias_def)

lemma digitVal_digitChar: "d < 10 \<Longrightarrow> digitVal (digitChar d) = d"
proof -
  assume "d < 10"
  then have "d \<in> {0,1,2,3,4,5,6,7,8,9}" by auto
  then show ?thesis by (auto simp: digitVal_def digitChar_def)
qed

lemma parseNat_snoc: "parseNat (s @ [c]) = 10 * parseNat s + digitVal c"
  by (simp add: parseNat_def)

lemma parseNat_toString: "parseNat (toString n) = n"
proof (induction n rule: toString.induct)
  case (1 n)
  show ?case
  proof (cases "n < 10")
    case True
    then show ?thesis
      by (subst toString.simps) (simp add: parseNat_def digitVal_digitChar)
  next
    case False
    with 1 have "parseNat (toString (n div 10)) = n div 10" by simp
    with False show ?thesis
      by (subst toString.simps) (simp add: parseNat_snoc digitVal_digitChar)
  qed
qed

lemma toString_inj: "toString m = toString n \<Longrightarrow> m = n"
  by (metis parseNat_toString)

lemma postIncrement_min: "v \<le> maxExactCounter \<Longrightarrow> postIncrement v = min maxExactCounter (v + 1)"
  by (simp add: postIncrement_def min_def)

lemma getScriptVersions_exact:
  "version ls + length fs \<le> maxExactCounter + 1
     \<Longrightarrow> fst (getScriptVersions fs ls) = map toString [version ls ..< version ls + length fs]"
proof (induction fs arbitrary: ls)
  case Nil
  then show ?case by simp
next
  case (Cons f fs)
  let ?ls' = "ls\<lparr>version := postIncrement (version ls)\<rparr>"
  have step: "fst (getScriptVersions (f # fs) ls) = toString (version ls) # fst (getScriptVersions fs ?ls')"
    by (simp add: getScriptVersion_def split: prod.splits)
  have upt: "[version ls ..< version ls + length (f # fs)]
          = version ls # [Suc (version ls) ..< Suc (version ls) + length fs]"
    by (simp add: upt_rec)
  show ?case
  proof (cases "version ls < maxExactCounter")
    case True
    then have v: "version ?ls' = Suc (version ls)" by (simp add: postIncrement_def)
    with Cons.prems have "version ?ls' + length fs \<le> maxExactCounter + 1" by simp
    from Cons.IH [OF this]
    have "fst (getScriptVersions fs ?ls')
            = map toString [Suc (version ls) ..< Suc (version ls) + length fs]"
      by (simp only: v)
    then show ?thesis by (simp only: step upt list.map)
  next
    case False
    with Cons.prems have "version ls + Suc (length fs) \<le> maxExactCounter + 1"
      and "maxExactCounter \<le> version ls" by simp_all
    then have "length fs \<le> 0" by arith
    then show ?thesis by (simp add: getScriptVersion_def)
  qed
qed

lemma getScriptVersions_saturating:
  "version ls \<le> maxExactCounter
     \<Longrightarrow> fst (getScriptVersions fs ls)
           = map (\<lambda>i. toString (min maxExactCounter (version ls + i))) [0 ..< length fs]"
proof (induction fs arbitrary: ls)
  case Nil
  then show ?case by simp
next
  case (Cons f fs)
  let ?ls' = "ls\<lparr>version := postIncrement (version ls)\<rparr>"
  have step: "fst (getScriptVersions (f # fs) ls) = toString (version ls) # fst (getScriptVersions fs ?ls')"
    by (simp add: getScriptVersion_def split: prod.splits)
  have v: "version ?ls' = min maxExactCounter (version ls + 1)"
    using Cons.prems by (simp add: postIncrement_min)
  then have le: "version ?ls' \<le> maxExactCounter" by simp
  have m: "min maxExactCounter (min maxExactCounter (version ls + 1) + i)
             = min maxExactCounter (version ls + Suc i)" for i
    by (simp add: min_def)
  from Cons.IH [OF le]
  have r: "fst (getScriptVersions fs ?ls')
          = map (\<lambda>i. toString (min maxExactCounter (version ls + Suc i))) [0 ..< length fs]"
    by (simp only: v m)
  have u: "[0 ..< length (f # fs)] = 0 # map Suc [0 ..< length fs]"
    by (metis length_Cons map_Suc_upt upt_conv_Cons zero_less_Suc)
  have z: "min maxExactCounter (version ls + 0) = version ls"
    using Cons.prems by simp
  show ?case
    by (simp only: step r u list.map map_map o_def z)
qed

lemma global_resetProgram [simp]: "global (resetProgram ls) = global ls"
  by (simp add: resetProgram_def)

lemma global_fire [simp]: "global (fire hs ls) = global ls"
  unfolding fire_def
proof (induction hs arbitrary: ls)
  case Nil
  show ?case by simp
next
  case (Cons h hs)
  then show ?case by (cases h) simp
qed

lemma version_resetProgram [simp]: "version (resetProgram ls) = version ls"
  by (simp add: resetProgram_def)

lemma version_fire [simp]: "version (fire hs ls) = version ls"
  unfolding fire_def
proof (induction hs arbitrary: ls)
  case Nil
  show ?case by simp
next
  case (Cons h hs)
  then show ?case by (cases h) simp
qed

lemma version_mutate [simp]: "version (mutate m ls) = version ls"
  by (cases m) (simp_all add: addSourceFile_def removeSourceFile_def Let_def)

lemma length_observations: "length (observations es ls) = versionRequests es"
proof (induction es arbitrary: ls)
  case Nil
  show ?case by simp
next
  case (Cons e es)
  then show ?case by (cases e) (simp_all add: getScriptVersion_def)
qed

lemma observations_versions:
  "version ls + versionRequests es \<le> maxExactCounter + 1
     \<Longrightarrow> \<exists>ns. map fst (observations es ls) = map toString ns \<and> sorted_wrt (<) ns
              \<and> (\<forall>n\<in>set ns. version ls \<le> n)"
proof (induction es arbitrary: ls)
  case Nil
  show ?case by simp
next
  case (Cons e es)
  show ?case
  proof (cases e)
    case (VersionRequest f)
    let ?ls' = "ls\<lparr>version := postIncrement (version ls)\<rparr>"
    have obs: "observations (e # es) ls
                 = (toString (version ls), f, map_of (sourceFileCache (global ls)) f) # observations es ?ls'"
      using VersionRequest by (simp add: getScriptVersion_def)
    show ?thesis
    proof (cases "version ls < maxExactCounter")
      case True
      then have v: "version ?ls' = Suc (version ls)" by (simp add: postIncrement_def)
      with Cons.prems VersionRequest have "version ?ls' + versionRequests es \<le> maxExactCounter + 1"
        by simp
      from Cons.IH [OF this] obtain ns where ns: "map fst (observations es ?ls') = map toString ns"
        "sorted_wrt (<) ns" "\<forall>n\<in>set ns. Suc (version ls) \<le> n"
        unfolding v by blast
      have "map fst (observations (e # es) ls) = map toString (version ls # ns)"
        using ns(1) by (simp add: obs)
      moreover have "sorted_wrt (<) (version ls # ns)" using ns(2,3) by auto
      moreover have "\<forall>n\<in>set (version ls # ns). version ls \<le> n" using ns(3) by auto
      ultimately show ?thesis by blast
    next
      case False
      with Cons.prems VersionRequest have "versionRequests es = 0" by simp
      then have "observations es ?ls' = []"
        using length_observations [of es ?ls'] by simp
      then show ?thesis
        by (intro exI [of _ "[version ls]"]) (simp add: obs)
    qed
  next
    case (Changed m)
    with Cons.prems have "version (mutate m ls) + versionRequests es \<le> maxExactCounter + 1" by simp
    from Cons.IH [OF this] Changed show ?thesis by simp
  qed
qed

lemma distinct_map_toString: "sorted_wrt (<) ns \<Longrightarrow> distinct (map toString ns)"
proof (induction ns)
  case Nil
  show ?case by simp
next
  case (Cons n ns)
  then have "\<forall>m\<in>set ns. n < m" and "distinct (map toString ns)" by auto
  moreover have "toString n \<notin> toString ` set ns"
  proof
    assume "toString n \<in> toString ` set ns"
    then obtain m where "m \<in> set ns" "toString n = toString m" by auto
    with \<open>\<forall>m\<in>set ns. n < m\<close> show False using toString_inj by fastforce
  qed
  ultimately show ?case by simp
qed

lemma same_key_same_value:
  "distinct (map fst xs) \<Longrightarrow> (k, a) \<in> set xs \<Longrightarrow> (k, b) \<in> set xs \<Longrightarrow> a = b"
  by (meson eq_key_imp_eq_value)

subsection \<open>The script version\<close>

text \<open>
  C2, as the claim states it, fails. The counter is a JavaScript number: once it has reached
  \<open>2\<^sup>5\<^sup>3\<close> the increment leaves it there. Of \<open>2\<^sup>5\<^sup>3 + 2\<close> calls on a new service, the last two
  return the same version, \<^verbatim>\<open>9007199254740992\<close>.
\<close>

theorem getScriptVersion_repeats_counterexample:
  "fst (getScriptVersions (replicate (maxExactCounter + 2) ''/a.ts'') exampleService) ! maxExactCounter
     = ''9007199254740992''
   \<and> fst (getScriptVersions (replicate (maxExactCounter + 2) ''/a.ts'') exampleService)
        ! (maxExactCounter + 1) = ''9007199254740992''
   \<and> \<not> distinct (fst (getScriptVersions (replicate (maxExactCounter + 2) ''/a.ts'') exampleService))"
proof -
  define vs where "vs = fst (getScriptVersions (replicate (maxExactCounter + 2) ''/a.ts'') exampleService)"
  have v0: "version exampleService = 0"
    by (simp add: exampleService_def LanguageService_new_def)
  have vs: "vs = map (\<lambda>i. toString (min maxExactCounter i)) [0 ..< maxExactCounter + 2]"
    unfolding vs_def
    using getScriptVersions_saturating [of exampleService "replicate (maxExactCounter + 2) ''/a.ts''"]
    by (simp add: v0)
  have s: "toString maxExactCounter = ''9007199254740992''"
    by (simp add: maxExactCounter_def toString.simps digitChar_def)
  have a: "vs ! maxExactCounter = ''9007199254740992''"
    unfolding vs by (simp add: s del: upt_Suc)
  have b: "vs ! (maxExactCounter + 1) = ''9007199254740992''"
    unfolding vs by (simp add: s del: upt_Suc)
  have len: "length vs = maxExactCounter + 2"
    unfolding vs by simp
  have "\<not> distinct vs"
  proof
    assume "distinct vs"
    from nth_eq_iff_index_eq [OF this, of maxExactCounter "maxExactCounter + 1"] a b len
    show False by simp
  qed
  with a b show ?thesis unfolding vs_def by blast
qed

text \<open>
  C2, amended. The script-version callback returns the counter and increments it on every
  call, whichever path is asked about. For every sequence of calls that the counter can
  count, that is, as long as the counter's value and the number of calls add up to at most
  \<open>2\<^sup>5\<^sup>3 + 1\<close>, the versions returned are the consecutive numbers from the counter's value on,
  strictly increasing and never repeated; and however the tracked files change between the
  engine's requests, no two observations of the engine carry the same version, so one
  version never comes with two different texts.
\<close>

theorem getScriptVersion_increasing_while_exact:
  assumes "version ls + length fileNames \<le> maxExactCounter + 1"
    and "version ls + versionRequests events \<le> maxExactCounter + 1"
  shows "fst (getScriptVersion fileName ls) = toString (version ls)
   \<and> (version ls < maxExactCounter \<longrightarrow> version (snd (getScriptVersion fileName ls)) = version ls + 1)
   \<and> fst (getScriptVersions fileNames ls) = map toString [version ls ..< version ls + length fileNames]
   \<and> sorted_wrt (<) (map parseNat (fst (getScriptVersions fileNames ls)))
   \<and> distinct (fst (getScriptVersions fileNames ls))
   \<and> distinct (map fst (observations events ls))
   \<and> (\<forall>v f1 t1 f2 t2.
         (v, f1, t1) \<in> set (observations events ls) \<and> (v, f2, t2) \<in> set (observations events ls)
         \<longrightarrow> f1 = f2 \<and> t1 = t2)"
proof -
  let ?vs = "fst (getScriptVersions fileNames ls)"
  have vs: "?vs = map toString [version ls ..< version ls + length fileNames]"
    using assms(1) by (rule getScriptVersions_exact)
  have "map parseNat ?vs = [version ls ..< version ls + length fileNames]"
    unfolding vs by (simp add: parseNat_toString o_def)
  then have inc: "sorted_wrt (<) (map parseNat ?vs)" by simp
  have dis: "distinct ?vs"
    unfolding vs by (rule distinct_map_toString) simp
  obtain ns where ns: "map fst (observations events ls) = map toString ns" "sorted_wrt (<) ns"
    using observations_versions [OF assms(2)] by blast
  then have obs: "distinct (map fst (observations events ls))"
    by (simp add: distinct_map_toString)
  have "f1 = f2 \<and> t1 = t2"
    if "(v, f1, t1) \<in> set (observations events ls)" "(v, f2, t2) \<in> set (observations events ls)"
    for v f1 t1 f2 t2
    using same_key_same_value [OF obs that] by simp
  with vs inc dis obs show ?thesis
    by (simp add: getScriptVersion_def postIncrement_def) blast
qed

theorem getScriptVersion_increasing_while_exact_witness:
  "fst (getScriptVersions [''/a.ts'', ''/b.ts'', ''/a.ts''] exampleService) = [''0'', ''1'', ''2'']
   \<and> map parseNat (fst (getScriptVersions [''/a.ts'', ''/b.ts'', ''/a.ts''] exampleService)) = [0, 1, 2]
   \<and> observations
        [VersionRequest ''/a.ts'', Changed (AddFile ''/a.ts'' ''const y = 1;''), VersionRequest ''/a.ts'']
        exampleService
      = [(''0'', ''/a.ts'', Some ''const x = 1;''), (''1'', ''/a.ts'', Some ''const y = 1;'')]
   \<and> distinct (map fst (observations
        [VersionRequest ''/a.ts'', Changed (AddFile ''/a.ts'' ''const y = 1;''), VersionRequest ''/a.ts'']
        exampleService))"
proof -
  have v0: "version exampleService = 0"
    by (simp add: exampleService_def LanguageService_new_def)
  have b1: "version exampleService + length [''/a.ts'', ''/b.ts'', ''/a.ts''] \<le> maxExactCounter + 1"
    by (simp add: v0 maxExactCounter_def)
  have b2: "version exampleService + versionRequests
        [VersionRequest ''/a.ts'', Changed (AddFile ''/a.ts'' ''const y = 1;''), VersionRequest ''/a.ts'']
      \<le> maxExactCounter + 1"
    by (simp add: v0 maxExactCounter_def)
  note T = getScriptVersion_increasing_while_exact [OF b1 b2, of "''/a.ts''"]
  have t: "toString 0 = ''0''" "toString (Suc 0) = ''1''" "toString (Suc (Suc 0)) = ''2''"
    by (subst toString.simps, simp add: digitChar_def)+
  have p: "map parseNat [''0'', ''1'', ''2''] = [0, 1, 2]"
    by (simp add: parseNat_def digitVal_def)
  have u: "[0 ..< 3] = [0, 1, 2::nat]"
    by (simp add: upt_rec)
  from T have "fst (getScriptVersions [''/a.ts'', ''/b.ts'', ''/a.ts''] exampleService)
      = map toString [version exampleService ..<
          version exampleService + length [''/a.ts'', ''/b.ts'', ''/a.ts'']]"
    by blast
  then have e1: "fst (getScriptVersions [''/a.ts'', ''/b.ts'', ''/a.ts''] exampleService) = [''0'', ''1'', ''2'']"
    by (simp add: v0 u t)
  have c: "sourceFileCache (global exampleService)
             = [(''/a.ts'', ''const x = 1;''), (''/b.ts'', ''import {x} from ./a; console.log(x);'')]"
    by (simp add: exampleService_def LanguageService_new_def exampleGlobal_def)
  have i: "postIncrement 0 = Suc 0"
    by (simp add: postIncrement_def maxExactCounter_def)
  have e3: "observations
        [VersionRequest ''/a.ts'', Changed (AddFile ''/a.ts'' ''const y = 1;''), VersionRequest ''/a.ts'']
        exampleService
      = [(''0'', ''/a.ts'', Some ''const x = 1;''), (''1'', ''/a.ts'', Some ''const y = 1;'')]"
    by (simp add: getScriptVersion_def v0 c i t addSourceFile_def setCached_def Let_def)
  from T have d: "distinct (map fst (observations
        [VersionRequest ''/a.ts'', Changed (AddFile ''/a.ts'' ''const y = 1;''), VersionRequest ''/a.ts'']
        exampleService))"
    by blast
  from e1 p e3 d show ?thesis by (simp only: simp_thms)
qed

subsection \<open>Nodes referencing a definition\<close>

text \<open>
  C4. For every node, \<open>getDefinitionReferencingNodes\<close> yields, over all the reference
  symbols that find-references returns and in their order, the nodes of exactly those
  references that are not definition occurrences, except that for a symbol whose definition
  is an alias every reference of the symbol is yielded, definition occurrences included.
\<close>

theorem getDefinitionReferencingNodes_exact:
  assumes "findReferences X g node = Inr groups"
  shows "getDefinitionReferencingNodes X g node = Inr (referencingNodes_spec groups)
    \<and> (\<forall>n. n \<in> set (referencingNodes_spec groups) \<longleftrightarrow>
          (\<exists>grp \<in> set groups. \<exists>r \<in> set (getReferences grp).
             n = getNode r \<and> (getDefinitionKind grp = ''alias'' \<or> \<not> isDefinition r)))"
proof -
  have "getDefinitionReferencingNodes X g node = Inr (referencingNodes_spec groups)"
    using assms by (simp add: getDefinitionReferencingNodes_def getReferencingNodes_spec)
  moreover have "n \<in> set (referencingNodes_spec groups) \<longleftrightarrow>
          (\<exists>grp \<in> set groups. \<exists>r \<in> set (getReferences grp).
             n = getNode r \<and> (getDefinitionKind grp = ''alias'' \<or> \<not> isDefinition r))" for n
    by (auto simp: referencingNodes_spec_def groupNodes_spec_def)
  ultimately show ?thesis by blast
qed


theorem getDefinitionReferencingNodes_exact_witness:
  "findReferences referencesExternals exampleGlobal exampleNode = Inr (map exampleSymbol exampleReferences)
   \<and> getDefinitionReferencingNodes referencesExternals exampleGlobal exampleNode
       = Inr [nodeAt ''/b.ts'' 33, nodeAt ''/b.ts'' 8]"
proof -
  have h: "findReferences referencesExternals exampleGlobal exampleNode
             = Inr (map exampleSymbol exampleReferences)"
    by (simp add: findReferences_def findReferencesAtPosition_def referencesExternals_def
          exampleExternals_def)
  have "referencingNodes_spec (map exampleSymbol exampleReferences)
          = [nodeAt ''/b.ts'' 33, nodeAt ''/b.ts'' 8]"
    by (simp add: referencingNodes_spec_def groupNodes_spec_def exampleSymbol_def
          exampleReferences_def nodeAt_def)
  with h getDefinitionReferencingNodes_exact [OF h] show ?thesis by simp
qed

subsection \<open>Renaming a node to its own text\<close>

text \<open>
  C3. For every node whose text equals the requested new name, \<open>renameNode\<close> changes
  nothing: the global container it leaves, and with it the text of every tracked file, is
  the one it started from; no text is replaced; and no rename-location query is made, as the
  outcome is the same for every language service, also one whose queries raise. The call
  returns normally, or, for a blank name, ends with the invalid-argument error that is
  checked first.
\<close>

theorem renameNode_same_text_noop:
  assumes "getText node = newName"
  shows "snd (renameNode X node newName g) = g
    \<and> fst (renameNode X node newName g)
        = (if list_all isWhitespaceChar newName
           then Inl (ArgumentNullOrWhitespaceError ''newName'') else Inr ())
    \<and> (\<forall>X'. renameNode X' node newName g = renameNode X node newName g)"
  using assms by (simp add: renameNode_def throwIfNotStringOrWhitespace_def)

theorem renameNode_same_text_noop_witness:
  "getText exampleNode = ''x''
   \<and> renameNode renameExternals exampleNode ''x'' exampleGlobal = (Inr (), exampleGlobal)
   \<and> renameNode raisingExternals exampleNode ''x'' exampleGlobal = (Inr (), exampleGlobal)"
proof -
  have h: "getText exampleNode = ''x''" by (simp add: exampleNode_def)
  have w: "\<not> list_all isWhitespaceChar ''x''" by (simp add: isWhitespaceChar_def)
  note T = renameNode_same_text_noop [OF h, of renameExternals exampleGlobal]
  from T w have a: "renameNode renameExternals exampleNode ''x'' exampleGlobal = (Inr (), exampleGlobal)"
    by (simp add: prod_eq_iff)
  from T have "renameNode raisingExternals exampleNode ''x'' exampleGlobal
                 = renameNode renameExternals exampleNode ''x'' exampleGlobal"
    by blast
  with a h show ?thesis by simp
qed

text \<open>With another name the locations are grouped by file and each file is rewritten in one
  pass: the rename of the spec's example.\<close>

lemma renameNode_example:
  "sourceFileCache (snd (renameNode renameExternals exampleNode ''yy'' exampleGlobal))
     = [(''/a.ts'', ''const yy = 1;''), (''/b.ts'', ''import {yy} from ./a; console.log(yy);'')]"
  by code_simp

subsection \<open>Filling format-code settings\<close>

lemma setValueIfUndefined_other: "k \<noteq> fst kv \<Longrightarrow> setValueIfUndefined kv obj k = obj k"
  by (simp add: setValueIfUndefined_def)

lemma fold_setValueIfUndefined_set:
  "\<not> isUnset (obj k) \<Longrightarrow> fold setValueIfUndefined ds obj k = obj k"
proof (induction ds arbitrary: obj)
  case Nil
  show ?case by simp
next
  case (Cons d ds)
  have "setValueIfUndefined d obj k = obj k"
    using Cons.prems by (cases "k = fst d") (simp_all add: setValueIfUndefined_def)
  with Cons show ?case by simp
qed

lemma fold_setValueIfUndefined_unset:
  "isUnset (obj k) \<Longrightarrow> map_of ds k = Some v \<Longrightarrow> v \<noteq> JUndefined
     \<Longrightarrow> fold setValueIfUndefined ds obj k = Some v"
proof (induction ds arbitrary: obj)
  case Nil
  then show ?case by simp
next
  case (Cons d ds)
  show ?case
  proof (cases "fst d = k")
    case True
    with Cons.prems have "snd d = v" by (cases d) simp
    with True Cons.prems have "setValueIfUndefined d obj k = Some v"
      by (simp add: setValueIfUndefined_def)
    moreover from \<open>v \<noteq> JUndefined\<close> have "\<not> isUnset (Some v)" by (cases v) simp_all
    ultimately show ?thesis
      using fold_setValueIfUndefined_set [of "setValueIfUndefined d obj" k ds] by simp
  next
    case False
    then have "setValueIfUndefined d obj k = obj k"
      by (simp add: setValueIfUndefined_def)
    moreover from False Cons.prems have "map_of ds k = Some v" by (cases d) (simp split: if_splits)
    ultimately show ?thesis using Cons by simp
  qed
qed

lemma fold_setValueIfUndefined_no_default:
  "map_of ds k = None \<Longrightarrow> fold setValueIfUndefined ds obj k = obj k"
proof (induction ds arbitrary: obj)
  case Nil
  show ?case by simp
next
  case (Cons d ds)
  then have "fst d \<noteq> k" and "map_of ds k = None" by (cases d; simp split: if_splits)+
  with Cons.IH [of "setValueIfUndefined d obj"] show ?case
    by (simp add: setValueIfUndefined_def)
qed

lemma getFilledSettings_filled: "truthy (getFilledSettings X g settings ''_filled'')"
  by (simp add: getFilledSettings_def)

text \<open>
  C7. Filling is idempotent: a settings object already marked as filled is returned
  unchanged, and filling twice gives what filling once gives. Where it fills, every field
  set in the passed settings keeps the passed value, a field absent there takes the value of
  the process-wide settings when that is set, and a field still unset after both takes its
  hardcoded default.
\<close>

theorem getFilledSettings_idempotent_precedence:
  "(truthy (settings ''_filled'') \<longrightarrow> getFilledSettings X g settings = settings)
   \<and> getFilledSettings X g (getFilledSettings X g settings) = getFilledSettings X g settings
   \<and> (\<not> truthy (settings ''_filled'') \<and> k \<noteq> ''_filled'' \<longrightarrow>
        (\<not> isUnset (settings k) \<longrightarrow> getFilledSettings X g settings k = settings k)
      \<and> (settings k = None \<and> \<not> isUnset (formatCodeSettings g k)
           \<longrightarrow> getFilledSettings X g settings k = formatCodeSettings g k)
      \<and> (isUnset ((formatCodeSettings g ++ settings) k)
           \<and> map_of (formatCodeDefaults X) k = Some v \<and> v \<noteq> JUndefined
           \<longrightarrow> getFilledSettings X g settings k = Some v)
      \<and> (isUnset ((formatCodeSettings g ++ settings) k) \<and> map_of (formatCodeDefaults X) k = None
           \<longrightarrow> getFilledSettings X g settings k = (formatCodeSettings g ++ settings) k))"
proof -
  have a: "truthy (settings ''_filled'') \<longrightarrow> getFilledSettings X g settings = settings"
    by (simp add: getFilledSettings_def)
  have b: "getFilledSettings X g (getFilledSettings X g settings) = getFilledSettings X g settings"
    using getFilledSettings_filled [of X g settings]
    by (subst getFilledSettings_def) simp
  have c: "getFilledSettings X g settings k
             = fold setValueIfUndefined (formatCodeDefaults X) (formatCodeSettings g ++ settings) k"
    if "\<not> truthy (settings ''_filled'')" "k \<noteq> ''_filled''"
    using that
    by (simp add: getFilledSettings_def fillDefaultFormatCodeSettings_def ObjectUtils_assign_def)
  have d: "getFilledSettings X g settings k = settings k"
    if "\<not> truthy (settings ''_filled'')" "k \<noteq> ''_filled''" "\<not> isUnset (settings k)"
  proof -
    from that(3) obtain w where "settings k = Some w" by (cases "settings k") auto
    with that(3) have "\<not> isUnset ((formatCodeSettings g ++ settings) k)"
      and "(formatCodeSettings g ++ settings) k = settings k" by (simp_all add: map_add_def)
    then show ?thesis using c [OF that(1,2)] by (simp add: fold_setValueIfUndefined_set)
  qed
  have e: "getFilledSettings X g settings k = formatCodeSettings g k"
    if "\<not> truthy (settings ''_filled'')" "k \<noteq> ''_filled''" "settings k = None"
       "\<not> isUnset (formatCodeSettings g k)"
  proof -
    from that(3) have "(formatCodeSettings g ++ settings) k = formatCodeSettings g k"
      by (simp add: map_add_def)
    then show ?thesis using c [OF that(1,2)] that(4) by (simp add: fold_setValueIfUndefined_set)
  qed
  have f: "getFilledSettings X g settings k = Some v"
    if "\<not> truthy (settings ''_filled'')" "k \<noteq> ''_filled''"
       "isUnset ((formatCodeSettings g ++ settings) k)"
       "map_of (formatCodeDefaults X) k = Some v" "v \<noteq> JUndefined"
    using c [OF that(1,2)]
      fold_setValueIfUndefined_unset [of "formatCodeSettings g ++ settings" k "formatCodeDefaults X" v]
      that(3,4,5)
    by simp
  have h: "getFilledSettings X g settings k = (formatCodeSettings g ++ settings) k"
    if "\<not> truthy (settings ''_filled'')" "k \<noteq> ''_filled''"
       "map_of (formatCodeDefaults X) k = None"
    using c [OF that(1,2)] fold_setValueIfUndefined_no_default [OF that(3)] by simp
  from a b d e f h show ?thesis by blast
qed


theorem getFilledSettings_idempotent_precedence_witness:
  "getFilledSettings exampleExternals exampleGlobal
      (getFilledSettings exampleExternals exampleGlobal exampleSettings)
     = getFilledSettings exampleExternals exampleGlobal exampleSettings
   \<and> getFilledSettings exampleExternals exampleGlobal exampleSettings ''indentSize'' = Some (JNum 8)
   \<and> getFilledSettings exampleExternals exampleGlobal exampleSettings ''tabSize'' = Some (JNum 2)
   \<and> getFilledSettings exampleExternals exampleGlobal exampleSettings ''newLineCharacter''
       = Some (JStr [CHR 0x0A])
   \<and> getFilledSettings exampleExternals exampleGlobal exampleSettings ''_filled'' = Some (JBool True)"
proof -
  have nf: "\<not> truthy (exampleSettings ''_filled'')"
    by (simp add: exampleSettings_def)
  have u: "isUnset ((formatCodeSettings exampleGlobal ++ exampleSettings) ''newLineCharacter'')"
    by (simp add: exampleSettings_def exampleGlobal_def map_add_def)
  have d: "map_of (formatCodeDefaults exampleExternals) ''newLineCharacter'' = Some (JStr [CHR 0x0A])"
    by (simp add: exampleExternals_def)
  have i: "\<not> isUnset (exampleSettings ''indentSize'')"
    by (simp add: exampleSettings_def)
  have t: "exampleSettings ''tabSize'' = None" "\<not> isUnset (formatCodeSettings exampleGlobal ''tabSize'')"
    by (simp_all add: exampleSettings_def exampleGlobal_def)
  have f: "getFilledSettings exampleExternals exampleGlobal exampleSettings ''_filled'' = Some (JBool True)"
    using nf by (simp add: getFilledSettings_def)
  note T = getFilledSettings_idempotent_precedence [of exampleSettings exampleExternals exampleGlobal]
  from T [of "''newLineCharacter''" "JStr [CHR 0x0A]"] nf u d
  have 1: "getFilledSettings exampleExternals exampleGlobal exampleSettings ''newLineCharacter''
       = Some (JStr [CHR 0x0A])" by simp
  from T [of "''indentSize''" JUndefined] nf i
  have 2: "getFilledSettings exampleExternals exampleGlobal exampleSettings ''indentSize'' = Some (JNum 8)"
    by (simp add: exampleSettings_def)
  from T [of "''tabSize''" JUndefined] nf t
  have 3: "getFilledSettings exampleExternals exampleGlobal exampleSettings ''tabSize'' = Some (JNum 2)"
    by (simp add: exampleGlobal_def)
  from T [of "''x''" JUndefined]
  have 4: "getFilledSettings exampleExternals exampleGlobal
      (getFilledSettings exampleExternals exampleGlobal exampleSettings)
     = getFilledSettings exampleExternals exampleGlobal exampleSettings" by blast
  from 1 2 3 4 f show ?thesis by blast
qed

subsection \<open>The two hosts\<close>

text \<open>
  C8. The compile host and the language service host resolve the same default library
  path, whatever options either is asked with, report the same case sensitivity and return
  the same newline string. The path is the engine's installed-library path for the global
  compiler options when the file system is the default (real) one, and otherwise the path
  of the library file under \<^verbatim>\<open>node_modules/typescript/lib/\<close> in the current directory.
\<close>

theorem hosts_agree:
  "compilerHost_getDefaultLibFileName X ls options = languageServiceHost_getDefaultLibFileName X ls options'
   \<and> compilerHost_useCaseSensitiveFileNames ls = languageServiceHost_useCaseSensitiveFileNames ls
   \<and> compilerHost_getNewLine ls = languageServiceHost_getNewLine ls
   \<and> languageServiceHost_getDefaultLibFileName X ls options =
       (if isDefaultFileSystemHost (global ls)
        then ts_getDefaultLibFilePath X (compilerOptions (global ls))
        else pathJoin X (currentDirectory (global ls))
               (''node_modules/typescript/lib/'' @ ts_getDefaultLibFileName X (compilerOptions (global ls))))"
  by (simp add: compilerHost_getDefaultLibFileName_def languageServiceHost_getDefaultLibFileName_def
        compilerHost_useCaseSensitiveFileNames_def compilerHost_getNewLine_def)


theorem hosts_agree_witness:
  "compilerHost_getDefaultLibFileName exampleExternals exampleService Map.empty
     = ''/project/node_modules/typescript/lib/lib.d.ts''
   \<and> languageServiceHost_getDefaultLibFileName exampleExternals exampleService Map.empty
     = ''/project/node_modules/typescript/lib/lib.d.ts''
   \<and> compilerHost_useCaseSensitiveFileNames exampleService
   \<and> compilerHost_getNewLine exampleService = [CHR 0x0A]"
proof -
  have "languageServiceHost_getDefaultLibFileName exampleExternals exampleService Map.empty
          = ''/project/node_modules/typescript/lib/lib.d.ts''"
    by (simp add: languageServiceHost_getDefaultLibFileName_def exampleService_def
          LanguageService_new_def exampleGlobal_def exampleExternals_def)
  moreover have "languageServiceHost_useCaseSensitiveFileNames exampleService"
    by (simp add: languageServiceHost_useCaseSensitiveFileNames_def)
  moreover have "languageServiceHost_getNewLine exampleService = [CHR 0x0A]"
    by (simp add: languageServiceHost_getNewLine_def exampleService_def
          LanguageService_new_def exampleGlobal_def)
  ultimately show ?thesis
    using hosts_agree [of exampleExternals exampleService Map.empty Map.empty] by simp
qed

subsection \<open>Queries on files that are not tracked\<close>

lemma getFilePath_tracked:
  "containsSourceFileAtPath g (pathOf X x) \<Longrightarrow> getFilePathFromFilePathOrSourceFile X g x = Inr (pathOf X x)"
  by (simp add: getFilePathFromFilePathOrSourceFile_def)



lemma isCouldNotFindFile_message [simp]: "isCouldNotFindFile (couldNotFindFile p)"
  by (simp add: isCouldNotFindFile_def couldNotFindFile_def)



lemma fileNotFound_viaEngine [simp]: "fileNotFound (viaEngine r) = raisesCouldNotFindFile r"
  by (cases r) auto







lemma example_tracked:
  "containsSourceFileAtPath exampleGlobal ''/a.ts''"
  "\<not> containsSourceFileAtPath exampleGlobal ''/missing.ts''"
  by (simp_all add: containsSourceFileAtPath_def exampleGlobal_def)

lemma example_pathOf:
  "getStandardizedAbsolutePath exampleExternals ''a.ts'' = ''/a.ts''"
  "getStandardizedAbsolutePath exampleExternals ''missing.ts'' = ''/missing.ts''"
  by (simp_all add: exampleExternals_def)

lemma example_getFilePath:
  "getFilePathFromFilePathOrSourceFile exampleExternals exampleGlobal (FilePath ''a.ts'') = Inr ''/a.ts''"
  using getFilePath_tracked [of exampleGlobal exampleExternals "FilePath ''a.ts''"]
  by (simp add: example_pathOf example_tracked)




subsection \<open>Empty answers of the language service\<close>

lemma orEmpty_empty: "r \<in> {Inr None, Inr (Some [])} \<Longrightarrow> bindE (viaEngine r) (\<lambda>v. Inr (map f (orEmpty v))) = Inr []"
  by auto

text \<open>
  C5, as the claim states it, fails for organize-imports: its result is not guarded by
  \<^verbatim>\<open>|| []\<close>, so an \<^verbatim>\<open>undefined\<close> answer for a tracked file ends in a \<open>TypeError\<close>.
\<close>

theorem organizeImports_undefined_counterexample:
  "containsSourceFileAtPath exampleGlobal (pathOf exampleExternals (FilePath ''a.ts''))
   \<and> ts_organizeImports exampleExternals exampleGlobal ''/a.ts''
        (getFilledSettings exampleExternals exampleGlobal Map.empty) = Inr None
   \<and> organizeImports exampleExternals exampleGlobal (FilePath ''a.ts'') None = Inl TypeError"
  by (simp add: organizeImports_def example_getFilePath example_pathOf example_tracked)
     (simp add: exampleExternals_def)


text \<open>
  C5, amended. For definitions, implementations, references, rename locations and
  formatting edits (range and document), an answer of the language service that is empty
  or \<^verbatim>\<open>undefined\<close> becomes the empty sequence, and the call does not fail. For
  organize-imports on a tracked file, an empty answer becomes the empty sequence.
\<close>

theorem empty_engine_result_normalized:
  "(ts_getDefinitionAtPosition X g (getFilePath sf) pos \<in> {Inr None, Inr (Some [])}
      \<longrightarrow> getDefinitionsAtPosition X g sf pos = Inr [])
   \<and> (ts_getImplementationAtPosition X g (getFilePath sf) pos \<in> {Inr None, Inr (Some [])}
      \<longrightarrow> getImplementationsAtPosition X g sf pos = Inr [])
   \<and> (ts_findReferences X g (getFilePath sf) pos \<in> {Inr None, Inr (Some [])}
      \<longrightarrow> findReferencesAtPosition X g sf pos = Inr [])
   \<and> (ts_findRenameLocations X g (getFilePath (getSourceFile node)) (getStart node) False False
        \<in> {Inr None, Inr (Some [])}
      \<longrightarrow> findRenameLocations X g node = Inr [])
   \<and> (ts_getFormattingEditsForRange X g p (fst rng) (snd rng) (getFilledSettings X g s)
        \<in> {Inr None, Inr (Some [])}
      \<longrightarrow> getFormattingEditsForRange X g p rng s = Inr [])
   \<and> (ts_getFormattingEditsForDocument X g p (getFilledSettings X g s) \<in> {Inr None, Inr (Some [])}
      \<longrightarrow> getFormattingEditsForDocument X g p s = Inr [])
   \<and> (containsSourceFileAtPath g (pathOf X x)
       \<and> ts_organizeImports X g (pathOf X x)
            (getFilledSettings X g (case os of None \<Rightarrow> Map.empty | Some s \<Rightarrow> s)) = Inr (Some [])
      \<longrightarrow> organizeImports X g x os = Inr [])"
  unfolding getDefinitionsAtPosition_def getImplementationsAtPosition_def
    findReferencesAtPosition_def findRenameLocations_def getFormattingEditsForRange_def
    getFormattingEditsForDocument_def Let_def
  by (intro conjI impI; (rule orEmpty_empty, assumption)?)
     (simp add: organizeImports_def getFilePath_tracked)

theorem empty_engine_result_normalized_witness:
  "getDefinitionsAtPosition exampleExternals exampleGlobal (getSourceFile exampleNode) 6 = Inr []
   \<and> findRenameLocations exampleExternals exampleGlobal exampleNode = Inr []
   \<and> getFormattingEditsForDocument exampleExternals exampleGlobal ''/a.ts'' exampleSettings = Inr []
   \<and> organizeImports emptyExternals exampleGlobal (FilePath ''a.ts'') None = Inr []"
proof -
  note T = empty_engine_result_normalized
    [of exampleExternals exampleGlobal "getSourceFile exampleNode" 6 exampleNode "''/a.ts''"
       "(0, 0)" exampleSettings "FilePath ''a.ts''" None]
  note U = empty_engine_result_normalized
    [of emptyExternals exampleGlobal "getSourceFile exampleNode" 6 exampleNode "''/a.ts''"
       "(0, 0)" exampleSettings "FilePath ''a.ts''" None]
  have p: "getStandardizedAbsolutePath emptyExternals ''a.ts'' = ''/a.ts''"
    by (simp add: emptyExternals_def exampleExternals_def)
  from T have "getDefinitionsAtPosition exampleExternals exampleGlobal (getSourceFile exampleNode) 6 = Inr []
   \<and> findRenameLocations exampleExternals exampleGlobal exampleNode = Inr []
   \<and> getFormattingEditsForDocument exampleExternals exampleGlobal ''/a.ts'' exampleSettings = Inr []"
    by (simp add: exampleExternals_def)
  moreover from U have "organizeImports emptyExternals exampleGlobal (FilePath ''a.ts'') None = Inr []"
    by (simp add: p example_tracked) (simp add: emptyExternals_def)
  ultimately show ?thesis by blast
qed


subsection \<open>The formatted document text\<close>

lemma expandReplacement_plain:
  "CHR ''$'' \<notin> set newLineChar \<Longrightarrow> expandReplacement newLineChar matched before after = newLineChar"
  by (induction newLineChar matched before after rule: expandReplacement.induct) auto

lemma replaceFrom_plain:
  "CHR ''$'' \<notin> set newLineChar \<Longrightarrow> replaceFrom before str newLineChar = normalizeNewLines str newLineChar"
  by (induction before str newLineChar rule: replaceFrom.induct)
     (simp_all add: expandReplacement_plain)

text \<open>For a newline string without a dollar sign the replacement is the literal one.\<close>

lemma replaceNewLines_plain:
  "CHR ''$'' \<notin> set newLineChar \<Longrightarrow> replaceNewLines str newLineChar = normalizeNewLines str newLineChar"
  by (simp add: replaceNewLines_def replaceFrom_plain)

text \<open>
  C6. The formatted text should be the edited text with every line terminator normalized to
  the configured newline string and then, when the setting asks for it, one newline appended
  if the text does not end with one. The function tests for the trailing newline before it
  normalizes: for a file \<^verbatim>\<open>a\n\<close> without formatting edits, the newline string \<^verbatim>\<open>\r\n\<close>
  and the setting on, it returns \<^verbatim>\<open>a\r\n\r\n\<close>, where the text ends with a line terminator
  already and the wording above gives \<^verbatim>\<open>a\r\n\<close>.
\<close>

theorem getFormattedDocumentText_doubles_newline:
  "getFormattedDocumentText exampleExternals lfGlobal ''/lf.ts'' crlfSettings
     = Inr (''a'' @ [CHR 0x0D, CHR 0x0A, CHR 0x0D, CHR 0x0A])
   \<and> formattedText_spec (''a'' @ [CHR 0x0A]) [CHR 0x0D, CHR 0x0A] True = ''a'' @ [CHR 0x0D, CHR 0x0A]
   \<and> getFormattingEditsForDocument exampleExternals lfGlobal ''/lf.ts'' crlfSettings = Inr []
   \<and> getTextFromFormattingEdits \<lparr>getFilePath = ''/lf.ts'', getFullText = ''a'' @ [CHR 0x0A]\<rparr> []
       = ''a'' @ [CHR 0x0A]"
  by code_simp

subsection \<open>The program follows the tracked files\<close>

lemma program_resetProgram:
  "program (resetProgram ls) = \<lparr>rootNames = getSourceFilePaths (global ls), compiled = None\<rparr>"
  by (simp add: resetProgram_def Program_reset_def)

lemma resetProgram_twice [simp]: "resetProgram (resetProgram ls) = resetProgram ls"
  by (simp add: resetProgram_def Program_reset_def)

lemma fire_resetProgram: "fire hs (resetProgram ls) = resetProgram ls"
  unfolding fire_def
proof (induction hs)
  case Nil
  show ?case by simp
next
  case (Cons h hs)
  then show ?case by (cases h) simp
qed

lemma fire_subscribed: "ResetProgram \<in> set hs \<Longrightarrow> fire hs ls = resetProgram ls"
proof (cases hs)
  case Nil
  moreover assume "ResetProgram \<in> set hs"
  ultimately show ?thesis by simp
next
  case (Cons h hs')
  have "fire (h # hs') ls = fire hs' (resetProgram ls)"
    by (cases h) (simp add: fire_def)
  with Cons show ?thesis by (simp add: fire_resetProgram)
qed

lemma coherent_resetProgram:
  "ResetProgram \<in> set (sourceFileAddedHandlers (global ls))
     \<Longrightarrow> ResetProgram \<in> set (sourceFileRemovedHandlers (global ls))
     \<Longrightarrow> coherent (resetProgram ls)"
  by (simp add: coherent_def program_resetProgram)

lemma coherent_new: "coherent (LanguageService_new g)"
  by (simp add: coherent_def LanguageService_new_def Program_new_def getSourceFilePaths_def)

lemma addSourceFile_subscribed:
  assumes "ResetProgram \<in> set (sourceFileAddedHandlers (global ls))"
  shows "addSourceFile p t ls
           = resetProgram (ls\<lparr>global := (global ls)\<lparr>sourceFileCache := setCached p t (sourceFileCache (global ls))\<rparr>\<rparr>)"
  using assms by (simp add: addSourceFile_def Let_def fire_subscribed)

lemma removeSourceFile_subscribed:
  assumes "ResetProgram \<in> set (sourceFileRemovedHandlers (global ls))"
    and "containsSourceFileAtPath (global ls) p"
  shows "removeSourceFile p ls
           = resetProgram (ls\<lparr>global := (global ls)\<lparr>sourceFileCache :=
                filter (\<lambda>(q, u). q \<noteq> p) (sourceFileCache (global ls))\<rparr>\<rparr>)"
  using assms by (simp add: removeSourceFile_def Let_def fire_subscribed)

lemma coherent_addSourceFile:
  assumes "coherent ls"
  shows "coherent (addSourceFile p t ls)"
proof -
  from assms have sub: "ResetProgram \<in> set (sourceFileAddedHandlers (global ls))"
    "ResetProgram \<in> set (sourceFileRemovedHandlers (global ls))"
    by (simp_all add: coherent_def)
  show ?thesis
    unfolding addSourceFile_subscribed [OF sub(1)]
    by (rule coherent_resetProgram) (simp_all add: sub)
qed

lemma coherent_removeSourceFile:
  assumes "coherent ls"
  shows "coherent (removeSourceFile p ls)"
proof (cases "containsSourceFileAtPath (global ls) p")
  case True
  from assms have sub: "ResetProgram \<in> set (sourceFileAddedHandlers (global ls))"
    "ResetProgram \<in> set (sourceFileRemovedHandlers (global ls))"
    by (simp_all add: coherent_def)
  show ?thesis
    unfolding removeSourceFile_subscribed [OF sub(2) True]
    by (rule coherent_resetProgram) (simp_all add: sub)
next
  case False
  with assms show ?thesis by (simp add: removeSourceFile_def)
qed

lemma coherent_mutate: "coherent ls \<Longrightarrow> coherent (mutate m ls)"
  by (cases m) (simp_all add: coherent_addSourceFile coherent_removeSourceFile)

lemma coherent_access:
  "coherent ls \<Longrightarrow> coherent (ls\<lparr>program := snd (Program_compilerObject (getProgram ls))\<rparr>)"
  by (auto simp: coherent_def Program_compilerObject_def getProgram_def split: option.splits)

lemma coherent_addOrGet: "coherent ls \<Longrightarrow> coherent (snd (addOrGetSourceFileFromFilePath p ls))"
  by (simp add: addOrGetSourceFileFromFilePath_def coherent_addSourceFile split: option.splits)

lemma snd_getScriptSnapshot:
  "snd (getScriptSnapshot p ls)
     = (if fileExistsSync ls p then snd (addOrGetSourceFileFromFilePath p ls) else ls)"
  by (simp add: getScriptSnapshot_def split: prod.splits option.splits)

lemma coherent_getScriptSnapshot: "coherent ls \<Longrightarrow> coherent (snd (getScriptSnapshot p ls))"
  by (simp add: snd_getScriptSnapshot coherent_addOrGet)

lemma coherent_getScriptVersion: "coherent ls \<Longrightarrow> coherent (snd (getScriptVersion p ls))"
  by (simp add: getScriptVersion_def coherent_def)

lemma coherent_operate: "coherent ls \<Longrightarrow> coherent (operate opn ls)"
  by (cases opn)
     (simp_all add: coherent_mutate coherent_access coherent_getScriptSnapshot
        coherent_getScriptVersion coherent_addOrGet compilerHost_getSourceFile_def)

lemma coherent_operations: "coherent ls \<Longrightarrow> coherent (operations ops ls)"
  unfolding operations_def
  by (induction ops arbitrary: ls) (simp_all add: coherent_operate)

lemma coherent_compilerObject:
  "coherent ls \<Longrightarrow> fst (Program_compilerObject (getProgram ls)) = getSourceFilePaths (global ls)"
  by (auto simp: coherent_def Program_compilerObject_def getProgram_def split: option.splits)

lemma map_fst_setCached:
  "map fst (setCached p t c) = (if map_of c p = None then map fst c @ [p] else map fst c)"
  by (induction c) (auto simp: setCached_def)

lemma paths_setCached: "p \<in> fst ` set (setCached p t c)"
proof -
  have "p \<in> set (map fst (setCached p t c))"
    unfolding map_fst_setCached by (auto simp: map_of_eq_None_iff)
  then show ?thesis by simp
qed

text \<open>
  C9. In every state that the service reaches from its construction by additions and
  removals of files, accesses to the program and callbacks of the engine: adding a file and
  removing a tracked file each leave the program reset with the file-path list as it is
  after the change, so the added path is, and the removed path is not, among the files of
  the program that the next access builds; and the files of the program at the next access
  are always the tracked files, before and after any further mutation.
\<close>

theorem program_reset_on_every_mutation:
  assumes "ls = operations ops (LanguageService_new g)"
  shows "getProgram (addSourceFile p t ls)
           = \<lparr>rootNames = getSourceFilePaths (global (addSourceFile p t ls)), compiled = None\<rparr>
    \<and> p \<in> set (fst (Program_compilerObject (getProgram (addSourceFile p t ls))))
    \<and> (containsSourceFileAtPath (global ls) p \<longrightarrow>
          getProgram (removeSourceFile p ls)
            = \<lparr>rootNames = getSourceFilePaths (global (removeSourceFile p ls)), compiled = None\<rparr>)
    \<and> p \<notin> set (fst (Program_compilerObject (getProgram (removeSourceFile p ls))))
    \<and> fst (Program_compilerObject (getProgram ls)) = getSourceFilePaths (global ls)
    \<and> fst (Program_compilerObject (getProgram (mutate m ls))) = getSourceFilePaths (global (mutate m ls))"
proof -
  have c: "coherent ls"
    using assms by (simp add: coherent_operations coherent_new)
  then have sub: "ResetProgram \<in> set (sourceFileAddedHandlers (global ls))"
    "ResetProgram \<in> set (sourceFileRemovedHandlers (global ls))"
    by (simp_all add: coherent_def)
  have 1: "getProgram (addSourceFile p t ls)
           = \<lparr>rootNames = getSourceFilePaths (global (addSourceFile p t ls)), compiled = None\<rparr>"
    by (simp add: addSourceFile_subscribed [OF sub(1)] getProgram_def program_resetProgram)
  have "getSourceFilePaths (global (addSourceFile p t ls))
          = map fst (setCached p t (sourceFileCache (global ls)))"
    by (simp add: addSourceFile_subscribed [OF sub(1)] getSourceFilePaths_def)
  then have 2: "p \<in> set (fst (Program_compilerObject (getProgram (addSourceFile p t ls))))"
    using coherent_compilerObject [OF coherent_addSourceFile [OF c, of p t]] paths_setCached [of p t]
    by simp
  have 3: "getProgram (removeSourceFile p ls)
            = \<lparr>rootNames = getSourceFilePaths (global (removeSourceFile p ls)), compiled = None\<rparr>"
    if "containsSourceFileAtPath (global ls) p"
    by (simp add: removeSourceFile_subscribed [OF sub(2) that] getProgram_def program_resetProgram)
  have "p \<notin> set (getSourceFilePaths (global (removeSourceFile p ls)))"
  proof (cases "containsSourceFileAtPath (global ls) p")
    case True
    then show ?thesis
      by (auto simp: removeSourceFile_subscribed [OF sub(2) True] getSourceFilePaths_def)
  next
    case False
    then show ?thesis
      by (simp add: removeSourceFile_def containsSourceFileAtPath_def getSourceFilePaths_def
            map_of_eq_None_iff)
  qed
  then have 4: "p \<notin> set (fst (Program_compilerObject (getProgram (removeSourceFile p ls))))"
    using coherent_compilerObject [OF coherent_removeSourceFile [OF c, of p]] by simp
  from 1 2 3 4 coherent_compilerObject [OF c] coherent_compilerObject [OF coherent_mutate [OF c, of m]]
  show ?thesis by blast
qed


theorem program_reset_on_every_mutation_witness:
  "getSourceFilePaths (global (operations
       [Mutate (AddFile ''/d.ts'' ''let d;''), AccessProgram, Mutate (RemoveFile ''/a.ts'')]
       (LanguageService_new exampleGlobal))) = [''/b.ts'', ''/d.ts'']
   \<and> fst (Program_compilerObject (getProgram (operations
       [Mutate (AddFile ''/d.ts'' ''let d;''), AccessProgram, Mutate (RemoveFile ''/a.ts'')]
       (LanguageService_new exampleGlobal)))) = [''/b.ts'', ''/d.ts'']
   \<and> fst (Program_compilerObject (getProgram (removeSourceFile ''/b.ts'' (operations
       [Mutate (AddFile ''/d.ts'' ''let d;''), AccessProgram, Mutate (RemoveFile ''/a.ts'')]
       (LanguageService_new exampleGlobal))))) = [''/d.ts'']"
proof -
  let ?ls = "operations
       [Mutate (AddFile ''/d.ts'' ''let d;''), AccessProgram, Mutate (RemoveFile ''/a.ts'')]
       (LanguageService_new exampleGlobal)"
  have e: "getSourceFilePaths (global ?ls) = [''/b.ts'', ''/d.ts'']"
    by code_simp
  have r: "getSourceFilePaths (global (removeSourceFile ''/b.ts'' ?ls)) = [''/d.ts'']"
    by code_simp
  note T = program_reset_on_every_mutation
    [of ?ls "[Mutate (AddFile ''/d.ts'' ''let d;''), AccessProgram, Mutate (RemoveFile ''/a.ts'')]"
       exampleGlobal "''/b.ts''" "[]" "RemoveFile ''/b.ts''", OF refl]
  from T have "fst (Program_compilerObject (getProgram ?ls)) = getSourceFilePaths (global ?ls)"
    by blast
  moreover from T have "fst (Program_compilerObject (getProgram (removeSourceFile ''/b.ts'' ?ls)))
     = getSourceFilePaths (global (removeSourceFile ''/b.ts'' ?ls))"
    by simp
  ultimately show ?thesis using e r by simp
qed

subsection \<open>The snapshot callback loads files\<close>

lemma addOrGet_loads:
  assumes "\<not> containsSourceFileAtPath (global ls) p" and "storage (global ls) p = Some t"
  shows "addOrGetSourceFileFromFilePath p ls
           = (Some \<lparr>getFilePath = p, getFullText = t\<rparr>, addSourceFile p t ls)"
  using assms
  by (simp add: addOrGetSourceFileFromFilePath_def getSourceFileFromCacheFromFilePath_def
        containsSourceFileAtPath_def)

lemma cache_addSourceFile:
  "sourceFileCache (global (addSourceFile p t ls)) = setCached p t (sourceFileCache (global ls))"
  by (simp add: addSourceFile_def Let_def)

lemma addOrGet_cached:
  assumes "map_of (sourceFileCache (global ls)) p = Some t"
  shows "addOrGetSourceFileFromFilePath p ls = (Some \<lparr>getFilePath = p, getFullText = t\<rparr>, ls)"
  using assms
  by (simp add: addOrGetSourceFileFromFilePath_def getSourceFileFromCacheFromFilePath_def)

text \<open>
  C10. For a path that is not in the source cache but exists in backing storage, the
  snapshot callback returns the stored text and is not read-only: afterwards the cache has
  that path as its last entry, so the tracked file set contains it. The callback returns
  \<^verbatim>\<open>undefined\<close> exactly when the path is neither in the cache nor in backing storage. For a
  path in the cache it returns the cached text and changes nothing.
\<close>

theorem getScriptSnapshot_loads_from_storage:
  "(\<not> containsSourceFileAtPath (global ls) p \<and> storage (global ls) p = Some t \<longrightarrow>
        fst (getScriptSnapshot p ls) = Inr (Some t)
      \<and> sourceFileCache (global (snd (getScriptSnapshot p ls))) = sourceFileCache (global ls) @ [(p, t)]
      \<and> containsSourceFileAtPath (global (snd (getScriptSnapshot p ls))) p
      \<and> p \<in> set (getSourceFilePaths (global (snd (getScriptSnapshot p ls)))))
   \<and> ((fst (getScriptSnapshot p ls) = Inr None)
        = (\<not> containsSourceFileAtPath (global ls) p \<and> storage (global ls) p = None))
   \<and> (containsSourceFileAtPath (global ls) p \<longrightarrow>
        snd (getScriptSnapshot p ls) = ls
      \<and> fst (getScriptSnapshot p ls) = Inr (map_of (sourceFileCache (global ls)) p))"
proof -
  have 1: "fst (getScriptSnapshot p ls) = Inr (Some t)
      \<and> sourceFileCache (global (snd (getScriptSnapshot p ls))) = sourceFileCache (global ls) @ [(p, t)]
      \<and> containsSourceFileAtPath (global (snd (getScriptSnapshot p ls))) p
      \<and> p \<in> set (getSourceFilePaths (global (snd (getScriptSnapshot p ls))))"
    if h: "\<not> containsSourceFileAtPath (global ls) p" "storage (global ls) p = Some t"
  proof -
    from h have ex: "fileExistsSync ls p"
      by (simp add: fileExistsSync_def fileSystemWrapper_fileExistsSync_def)
    from h(1) have none: "map_of (sourceFileCache (global ls)) p = None"
      by (simp add: containsSourceFileAtPath_def)
    have s: "getScriptSnapshot p ls = (Inr (Some t), addSourceFile p t ls)"
      using ex by (simp add: getScriptSnapshot_def addOrGet_loads [OF h])
    have c: "sourceFileCache (global (addSourceFile p t ls)) = sourceFileCache (global ls) @ [(p, t)]"
      using none by (simp add: cache_addSourceFile setCached_def)
    show ?thesis
      by (simp add: s c containsSourceFileAtPath_def getSourceFilePaths_def)
  qed
  have 3: "snd (getScriptSnapshot p ls) = ls
      \<and> fst (getScriptSnapshot p ls) = Inr (map_of (sourceFileCache (global ls)) p)"
    if h: "containsSourceFileAtPath (global ls) p"
  proof -
    from h obtain u where u: "map_of (sourceFileCache (global ls)) p = Some u"
      by (auto simp: containsSourceFileAtPath_def)
    from h have "fileExistsSync ls p" by (simp add: fileExistsSync_def)
    then show ?thesis
      by (simp add: getScriptSnapshot_def addOrGet_cached [OF u] u)
  qed
  have 2: "(fst (getScriptSnapshot p ls) = Inr None)
        = (\<not> containsSourceFileAtPath (global ls) p \<and> storage (global ls) p = None)"
  proof (cases "containsSourceFileAtPath (global ls) p")
    case True
    from 3 [OF True] True show ?thesis by (auto simp: containsSourceFileAtPath_def)
  next
    case False
    show ?thesis
    proof (cases "storage (global ls) p")
      case None
      with False show ?thesis
        by (simp add: getScriptSnapshot_def fileExistsSync_def fileSystemWrapper_fileExistsSync_def)
    next
      case (Some u)
      have "fileExistsSync ls p"
        using Some by (simp add: fileExistsSync_def fileSystemWrapper_fileExistsSync_def)
      then have "fst (getScriptSnapshot p ls) = Inr (Some u)"
        by (simp add: getScriptSnapshot_def addOrGet_loads [OF False Some])
      with False Some show ?thesis by simp
    qed
  qed
  from 1 2 3 show ?thesis by blast
qed

theorem getScriptSnapshot_loads_from_storage_witness:
  "\<not> containsSourceFileAtPath (global exampleService) ''/c.ts''
   \<and> fst (getScriptSnapshot ''/c.ts'' exampleService) = Inr (Some ''export const z = 3;'')
   \<and> getSourceFilePaths (global (snd (getScriptSnapshot ''/c.ts'' exampleService)))
       = [''/a.ts'', ''/b.ts'', ''/c.ts'']
   \<and> fst (getScriptSnapshot ''/missing.ts'' exampleService) = Inr None
   \<and> fst (getScriptSnapshot ''/a.ts'' exampleService) = Inr (Some ''const x = 1;'')"
proof -
  have g: "global exampleService = exampleGlobal\<lparr>sourceFileAddedHandlers := [ResetProgram],
              sourceFileRemovedHandlers := [ResetProgram]\<rparr>"
    by (simp add: exampleService_def LanguageService_new_def exampleGlobal_def)
  have a: "\<not> containsSourceFileAtPath (global exampleService) ''/c.ts''"
    "storage (global exampleService) ''/c.ts'' = Some ''export const z = 3;''"
    "\<not> containsSourceFileAtPath (global exampleService) ''/missing.ts''"
    "storage (global exampleService) ''/missing.ts'' = None"
    "containsSourceFileAtPath (global exampleService) ''/a.ts''"
    "sourceFileCache (global exampleService)
       = [(''/a.ts'', ''const x = 1;''), (''/b.ts'', ''import {x} from ./a; console.log(x);'')]"
    by (simp_all add: g containsSourceFileAtPath_def exampleGlobal_def)
  from getScriptSnapshot_loads_from_storage [of exampleService "''/c.ts''" "''export const z = 3;''"] a
  have 1: "fst (getScriptSnapshot ''/c.ts'' exampleService) = Inr (Some ''export const z = 3;'')
     \<and> getSourceFilePaths (global (snd (getScriptSnapshot ''/c.ts'' exampleService)))
       = [''/a.ts'', ''/b.ts'', ''/c.ts'']"
    by (simp add: getSourceFilePaths_def)
  from getScriptSnapshot_loads_from_storage [of exampleService "''/missing.ts''" "[]"] a
  have 2: "fst (getScriptSnapshot ''/missing.ts'' exampleService) = Inr None"
    by simp
  from getScriptSnapshot_loads_from_storage [of exampleService "''/a.ts''" "[]"] a
  have 3: "fst (getScriptSnapshot ''/a.ts'' exampleService) = Inr (Some ''const x = 1;'')"
    by simp
  from a(1) 1 2 3 show ?thesis by blast
qed


end
